theory Spec2Isabelle
  imports Main "HOL-Library.Multiset" "HOL-Library.AList"
begin

section \<open>Go string primitives used by the engine\<close>

text \<open>
  Go strings are byte sequences; \<open>string\<close> (a \<open>char list\<close>) models them byte for byte.
  \<open>HasPrefix\<close>, \<open>HasSuffix\<close> and \<open>TrimSuffix\<close> follow the bodies of the functions of
  package \<open>strings\<close>.
\<close>

definition HasPrefix :: "string \<Rightarrow> string \<Rightarrow> bool" where
  "HasPrefix s p = (length p \<le> length s \<and> take (length p) s = p)"

definition HasSuffix :: "string \<Rightarrow> string \<Rightarrow> bool" where
  "HasSuffix s suf = (length suf \<le> length s \<and> drop (length s - length suf) s = suf)"

definition TrimSuffix :: "string \<Rightarrow> string \<Rightarrow> string" where
  "TrimSuffix s suf = (if HasSuffix s suf then take (length s - length suf) s else s)"

fun Join :: "string list \<Rightarrow> string \<Rightarrow> string" where
  "Join [] sep = ''''"
| "Join [x] sep = x"
| "Join (x # y # ys) sep = x @ sep @ Join (y # ys) sep"

section \<open>matcher.go\<close>

definition matchGlob :: "string \<Rightarrow> string \<Rightarrow> bool" where
  "matchGlob pattern v =
     (if pattern = ''*'' then True
      else if pattern = v then True
      else if HasSuffix pattern '':*'' then HasPrefix v (TrimSuffix pattern ''*'')
      else if HasSuffix pattern ''.*'' then HasPrefix v (TrimSuffix pattern ''*'')
      else if HasSuffix pattern ''*'' then HasPrefix v (TrimSuffix pattern ''*'')
      else False)"

definition matchPermission :: "string \<Rightarrow> string \<Rightarrow> bool" where
  "matchPermission permName required =
     (if permName = required then True else matchGlob permName required)"

section \<open>warden.go: requests and results\<close>

text \<open>
  Go's \<open>any\<close> attribute values: the dynamic types that requests and policy conditions carry.
\<close>

datatype Value = VNil | VString string | VInt int | VBool bool | VList "Value list"

text \<open>\<open>SubjectKind\<close> and \<open>Decision\<close> are string types in the source and stay strings here.\<close>

record Subject =
  sub_Kind :: string
  sub_ID :: string
  sub_Attributes :: "string \<rightharpoonup> Value"

record Resource =
  res_Type :: string
  res_ID :: string
  res_Attributes :: "string \<rightharpoonup> Value"

record Action =
  act_Name :: string

record CheckRequest =
  req_Subject :: Subject
  req_Action :: Action
  req_Resource :: Resource
  req_Context :: "string \<rightharpoonup> Value"

record MatchInfo =
  mi_Source :: string
  mi_RuleID :: string
  mi_Detail :: string

record CheckResult =
  Allowed :: bool
  Decision :: string
  Reason :: string
  MatchedBy :: "MatchInfo list"
  EvalTimeNs :: int

abbreviation DecisionAllow :: string where "DecisionAllow \<equiv> ''allow''"
abbreviation DecisionDeny :: string where "DecisionDeny \<equiv> ''deny''"
abbreviation DecisionDenyExplicit :: string where "DecisionDenyExplicit \<equiv> ''deny_explicit''"
abbreviation DecisionDenyDefault :: string where "DecisionDenyDefault \<equiv> ''deny_default''"
abbreviation DecisionDenyNoRoles :: string where "DecisionDenyNoRoles \<equiv> ''deny_no_roles''"
abbreviation DecisionDenyNoPerms :: string where "DecisionDenyNoPerms \<equiv> ''deny_no_perms''"
abbreviation DecisionDenyCondition :: string where "DecisionDenyCondition \<equiv> ''deny_condition''"
abbreviation DecisionDenyRelation :: string where "DecisionDenyRelation \<equiv> ''deny_relation''"

text \<open>
  The zero value of \<open>CheckResult\<close>: a composite literal sets the fields it names and leaves
  the others at their zero values.
\<close>

definition zeroResult :: CheckResult where
  "zeroResult = \<lparr>Allowed = False, Decision = '''', Reason = '''', MatchedBy = [], EvalTimeNs = 0\<rparr>"

section \<open>errors.go\<close>

text \<open>
  The sentinel errors the engine itself raises or tests for, an opaque error of a
  collaborator (a store failure with its message), and \<open>fmt.Errorf("...%w", err)\<close>, which
  wraps an error under a message prefix. \<open>errors_Is\<close> walks the wrap chain as
  \<open>errors.Is\<close> does.
\<close>

datatype error =
    ErrAccessDenied
  | ErrInvalidCondition
  | ErrGraphDepthExceeded
  | Opaque string
  | Wrap string error

fun errors_Is :: "error \<Rightarrow> error \<Rightarrow> bool" where
  "errors_Is (Wrap msg inner) target = (Wrap msg inner = target \<or> errors_Is inner target)"
| "errors_Is e target = (e = target)"

section \<open>cache: the in-memory TTL cache\<close>

text \<open>
  A \<open>*CheckResult\<close> is a reference into a heap of results: the cache stores the pointer
  it is given, and \<open>Get\<close> hands the same pointer back. Instants (\<open>time.Time\<close>) and
  durations are integers counting nanoseconds. The entry table is a Go map; it is kept as
  an association list with distinct keys whose order stands for the unspecified iteration
  order of the map.
\<close>

type_synonym ref = nat

record entry =
  e_result :: ref
  e_expiresAt :: int

record Memory =
  entries :: "(string \<times> entry) list"
  ttl :: int
  maxSize :: int

definition cacheKey :: "string \<Rightarrow> CheckRequest \<Rightarrow> string" where
  "cacheKey tenantID req =
     tenantID @ '':'' @ sub_Kind (req_Subject req) @ '':'' @ sub_ID (req_Subject req) @ '':'' @
     act_Name (req_Action req) @ '':'' @ res_Type (req_Resource req) @ '':'' @
     res_ID (req_Resource req)"

text \<open>
  \<open>Get\<close> at wall-clock reading \<open>now\<close>: \<open>None\<close> is the miss \<open>(nil, false)\<close>, \<open>Some r\<close> the hit
  \<open>(r, true)\<close>; the second component is the cache afterwards.
\<close>

definition Memory_Get :: "Memory \<Rightarrow> int \<Rightarrow> string \<Rightarrow> CheckRequest \<Rightarrow> ref option \<times> Memory" where
  "Memory_Get m now tenantID req =
     (let key = cacheKey tenantID req in
      case map_of (entries m) key of
        None \<Rightarrow> (None, m)
      | Some e \<Rightarrow>
          if now > e_expiresAt e
          then (None, m\<lparr>entries := AList.delete key (entries m)\<rparr>)
          else (Some (e_result e), m))"

definition evictExpired :: "int \<Rightarrow> (string \<times> entry) list \<Rightarrow> (string \<times> entry) list" where
  "evictExpired now es = filter (\<lambda>(k, e). \<not> now > e_expiresAt e) es"

text \<open>\<open>evictOne\<close> deletes the first entry the map iteration yields.\<close>

definition evictOne :: "(string \<times> entry) list \<Rightarrow> (string \<times> entry) list" where
  "evictOne es = (case es of [] \<Rightarrow> [] | (k, e) # rest \<Rightarrow> AList.delete k es)"

text \<open>
  \<open>Set\<close> reads the clock twice: \<open>nowEvict\<close> inside \<open>evictExpired\<close> (only when the cache is at
  capacity) and \<open>nowStore\<close> for the new entry's expiry.
\<close>

definition Memory_Set :: "Memory \<Rightarrow> int \<Rightarrow> int \<Rightarrow> string \<Rightarrow> CheckRequest \<Rightarrow> ref \<Rightarrow> Memory" where
  "Memory_Set m nowEvict nowStore tenantID req result =
     (let key = cacheKey tenantID req;
          es1 = (if int (length (entries m)) \<ge> maxSize m
                 then (let es = evictExpired nowEvict (entries m)
                       in if int (length es) \<ge> maxSize m then evictOne es else es)
                 else entries m)
      in m\<lparr>entries := AList.update key \<lparr>e_result = result, e_expiresAt = nowStore + ttl m\<rparr> es1\<rparr>)"

section \<open>id: prefix-qualified identifiers\<close>

text \<open>
  Modelled from the spec: the identifier library \<open>go.jetify.com/typeid/v2\<close> that package
  \<open>id\<close> wraps is not part of the repository. A TypeID is a pair \<open>(prefix, suffix)\<close>
  serialized as \<open>prefix_suffix\<close>; the suffix is the base32 text of a 128-bit value
  (26 characters of the lower-case Crockford alphabet, the first at most \<open>7\<close>); the prefix
  is at most 63 lower-case letters or underscores and neither starts nor ends with an
  underscore. A malformed suffix or prefix is rejected.
\<close>

record TypeID =
  tid_prefix :: string
  tid_suffix :: string

text \<open>Modelled from the spec: the well-formed prefixes of the identifier library.\<close>

definition validPrefix :: "string \<Rightarrow> bool" where
  "validPrefix p =
     (length p \<le> 63 \<and> list_all (\<lambda>c. c \<in> set ''abcdefghijklmnopqrstuvwxyz_'') p \<and>
      (case p of [] \<Rightarrow> True | c # cs \<Rightarrow> c \<noteq> CHR ''_'' \<and> last p \<noteq> CHR ''_''))"

text \<open>Modelled from the spec: the well-formed suffixes of the identifier library.\<close>

definition validSuffix :: "string \<Rightarrow> bool" where
  "validSuffix s =
     (length s = 26 \<and> list_all (\<lambda>c. c \<in> set ''0123456789abcdefghjkmnpqrstvwxyz'') s \<and>
      (case s of [] \<Rightarrow> False | c # cs \<Rightarrow> c \<in> set ''01234567''))"

text \<open>Modelled from the spec: the textual form \<open>prefix_suffix\<close> of the identifier library.\<close>

definition typeid_String :: "TypeID \<Rightarrow> string" where
  "typeid_String t =
     (if tid_prefix t = [] then tid_suffix t else tid_prefix t @ ''_'' @ tid_suffix t)"

text \<open>
  Modelled from the spec: the library's parser. The text is cut at its last underscore; a
  text without an underscore is a suffix with the empty prefix, and an empty prefix in front
  of a separator is rejected, as is a malformed prefix or suffix.
\<close>

definition typeid_Parse :: "string \<Rightarrow> string + TypeID" where
  "typeid_Parse s =
     (if CHR ''_'' \<in> set s
      then (let p = rev (tl (dropWhile (\<lambda>c. c \<noteq> CHR ''_'') (rev s)));
                suf = rev (takeWhile (\<lambda>c. c \<noteq> CHR ''_'') (rev s))
            in if p = [] then Inl ''typeid: prefix cannot be empty when there is a separator''
               else if \<not> validPrefix p then Inl ''typeid: invalid prefix''
               else if \<not> validSuffix suf then Inl ''typeid: invalid suffix''
               else Inr \<lparr>tid_prefix = p, tid_suffix = suf\<rparr>)
      else if \<not> validSuffix s then Inl ''typeid: invalid suffix''
      else Inr \<lparr>tid_prefix = [], tid_suffix = s\<rparr>)"

text \<open>
  Modelled from the spec: the library's generator. The fresh time-ordered 128-bit value is
  an input, given by its 26-character text \<open>fresh\<close>; an invalid prefix is an error.
\<close>

definition typeid_Generate :: "string \<Rightarrow> string \<Rightarrow> string + TypeID" where
  "typeid_Generate p fresh =
     (if validPrefix p then Inr \<lparr>tid_prefix = p, tid_suffix = fresh\<rparr>
      else Inl ''typeid: invalid prefix'')"

text \<open>Package \<open>id\<close> itself. \<open>Quote\<close> stands for the verb \<open>%q\<close> on text without escapes.\<close>

definition Quote :: "string \<Rightarrow> string" where
  "Quote s = [CHR 0x22] @ s @ [CHR 0x22]"

abbreviation PrefixRole :: string where "PrefixRole \<equiv> ''role''"
abbreviation PrefixPermission :: string where "PrefixPermission \<equiv> ''perm''"
abbreviation PrefixAssignment :: string where "PrefixAssignment \<equiv> ''asgn''"
abbreviation PrefixPolicy :: string where "PrefixPolicy \<equiv> ''wpol''"
abbreviation PrefixRelation :: string where "PrefixRelation \<equiv> ''rel''"
abbreviation PrefixCheckLog :: string where "PrefixCheckLog \<equiv> ''chklog''"
abbreviation PrefixResourceType :: string where "PrefixResourceType \<equiv> ''rtype''"
abbreviation PrefixCondition :: string where "PrefixCondition \<equiv> ''cond''"

record ID =
  inner :: TypeID
  valid :: bool

definition Nil_ID :: ID where
  "Nil_ID = \<lparr>inner = \<lparr>tid_prefix = [], tid_suffix = []\<rparr>, valid = False\<rparr>"

text \<open>\<open>New\<close> panics on an invalid prefix: the panic is the \<open>Inl\<close> branch.\<close>

definition New :: "string \<Rightarrow> string \<Rightarrow> error + ID" where
  "New pfx fresh =
     (case typeid_Generate pfx fresh of
        Inl err \<Rightarrow> Inl (Opaque (''id: invalid prefix '' @ Quote pfx @ '': '' @ err))
      | Inr tid \<Rightarrow> Inr \<lparr>inner = tid, valid = True\<rparr>)"

definition Parse :: "string \<Rightarrow> error + ID" where
  "Parse s =
     (if s = [] then Inl (Opaque (''id: parse '' @ Quote s @ '': empty string''))
      else case typeid_Parse s of
             Inl err \<Rightarrow> Inl (Wrap (''id: parse '' @ Quote s @ '': '') (Opaque err))
           | Inr tid \<Rightarrow> Inr \<lparr>inner = tid, valid = True\<rparr>)"

definition String :: "ID \<Rightarrow> string" where
  "String i = (if \<not> valid i then [] else typeid_String (inner i))"

definition Prefix :: "ID \<Rightarrow> string" where
  "Prefix i = (if \<not> valid i then [] else tid_prefix (inner i))"

definition IsNil :: "ID \<Rightarrow> bool" where
  "IsNil i = (\<not> valid i)"

definition ParseWithPrefix :: "string \<Rightarrow> string \<Rightarrow> error + ID" where
  "ParseWithPrefix s expected =
     (case Parse s of
        Inl err \<Rightarrow> Inl err
      | Inr parsed \<Rightarrow>
          if Prefix parsed \<noteq> expected
          then Inl (Opaque (''id: expected prefix '' @ Quote expected @ '', got '' @
                            Quote (Prefix parsed)))
          else Inr parsed)"

definition NewRoleID :: "string \<Rightarrow> error + ID" where "NewRoleID = New PrefixRole"
definition NewPermissionID :: "string \<Rightarrow> error + ID" where "NewPermissionID = New PrefixPermission"
definition NewAssignmentID :: "string \<Rightarrow> error + ID" where "NewAssignmentID = New PrefixAssignment"
definition NewPolicyID :: "string \<Rightarrow> error + ID" where "NewPolicyID = New PrefixPolicy"
definition NewRelationID :: "string \<Rightarrow> error + ID" where "NewRelationID = New PrefixRelation"
definition NewCheckLogID :: "string \<Rightarrow> error + ID" where "NewCheckLogID = New PrefixCheckLog"
definition NewResourceTypeID :: "string \<Rightarrow> error + ID" where "NewResourceTypeID = New PrefixResourceType"
definition NewConditionID :: "string \<Rightarrow> error + ID" where "NewConditionID = New PrefixCondition"

definition ParseRoleID :: "string \<Rightarrow> error + ID" where
  "ParseRoleID s = ParseWithPrefix s PrefixRole"
definition ParsePermissionID :: "string \<Rightarrow> error + ID" where
  "ParsePermissionID s = ParseWithPrefix s PrefixPermission"
definition ParseAssignmentID :: "string \<Rightarrow> error + ID" where
  "ParseAssignmentID s = ParseWithPrefix s PrefixAssignment"
definition ParsePolicyID :: "string \<Rightarrow> error + ID" where
  "ParsePolicyID s = ParseWithPrefix s PrefixPolicy"
definition ParseRelationID :: "string \<Rightarrow> error + ID" where
  "ParseRelationID s = ParseWithPrefix s PrefixRelation"
definition ParseCheckLogID :: "string \<Rightarrow> error + ID" where
  "ParseCheckLogID s = ParseWithPrefix s PrefixCheckLog"
definition ParseResourceTypeID :: "string \<Rightarrow> error + ID" where
  "ParseResourceTypeID s = ParseWithPrefix s PrefixResourceType"
definition ParseConditionID :: "string \<Rightarrow> error + ID" where
  "ParseConditionID s = ParseWithPrefix s PrefixCondition"

text \<open>
  The eight entity kinds: each kind's prefix, constructor and parser, in the order of the
  source's constant block.
\<close>

datatype Kind = KRole | KPermission | KAssignment | KPolicy | KRelation | KCheckLog
  | KResourceType | KCondition

fun prefixOf :: "Kind \<Rightarrow> string" where
  "prefixOf KRole = PrefixRole"
| "prefixOf KPermission = PrefixPermission"
| "prefixOf KAssignment = PrefixAssignment"
| "prefixOf KPolicy = PrefixPolicy"
| "prefixOf KRelation = PrefixRelation"
| "prefixOf KCheckLog = PrefixCheckLog"
| "prefixOf KResourceType = PrefixResourceType"
| "prefixOf KCondition = PrefixCondition"

fun newFor :: "Kind \<Rightarrow> string \<Rightarrow> error + ID" where
  "newFor KRole = NewRoleID"
| "newFor KPermission = NewPermissionID"
| "newFor KAssignment = NewAssignmentID"
| "newFor KPolicy = NewPolicyID"
| "newFor KRelation = NewRelationID"
| "newFor KCheckLog = NewCheckLogID"
| "newFor KResourceType = NewResourceTypeID"
| "newFor KCondition = NewConditionID"

fun parserFor :: "Kind \<Rightarrow> string \<Rightarrow> error + ID" where
  "parserFor KRole = ParseRoleID"
| "parserFor KPermission = ParsePermissionID"
| "parserFor KAssignment = ParseAssignmentID"
| "parserFor KPolicy = ParsePolicyID"
| "parserFor KRelation = ParseRelationID"
| "parserFor KCheckLog = ParseCheckLogID"
| "parserFor KResourceType = ParseResourceTypeID"
| "parserFor KCondition = ParseConditionID"

section \<open>id, first layer: identifiers typed by their prefix\<close>

text \<open>
  The older file of package \<open>id\<close> gives every entity its own identifier type,
  \<open>typeid.TypeID[P]\<close> for a prefix type \<open>P\<close>, and leaves generation and parsing to the
  generic functions of the library, \<open>typeid.New[T]\<close> and \<open>typeid.Parse[T]\<close>. An identifier of
  this layer is the library's \<open>TypeID\<close> itself.
\<close>

definition RolePrefix_Prefix :: string where "RolePrefix_Prefix = ''wrol''"
definition PermissionPrefix_Prefix :: string where "PermissionPrefix_Prefix = ''wprm''"
definition AssignmentPrefix_Prefix :: string where "AssignmentPrefix_Prefix = ''wasn''"
definition PolicyPrefix_Prefix :: string where "PolicyPrefix_Prefix = ''wpol''"
definition RelationPrefix_Prefix :: string where "RelationPrefix_Prefix = ''wrel''"
definition CheckLogPrefix_Prefix :: string where "CheckLogPrefix_Prefix = ''wclg''"
definition ResourceTypePrefix_Prefix :: string where "ResourceTypePrefix_Prefix = ''wrtp''"
definition ConditionPrefix_Prefix :: string where "ConditionPrefix_Prefix = ''wcnd''"

text \<open>
  Modelled from the spec: the library's generic constructor \<open>typeid.New[T]\<close>, which
  generates an identifier with the prefix of the type \<open>T\<close>.
\<close>

definition typeid_New :: "string \<Rightarrow> string \<Rightarrow> string + TypeID" where
  "typeid_New typePrefix fresh = typeid_Generate typePrefix fresh"

text \<open>
  Modelled from the spec: the library's generic parser \<open>typeid.Parse[T]\<close>, which parses the
  text and rejects a prefix other than that of the type \<open>T\<close>.
\<close>

definition typeid_ParseAs :: "string \<Rightarrow> string \<Rightarrow> string + TypeID" where
  "typeid_ParseAs typePrefix s =
     (case typeid_Parse s of
        Inl err \<Rightarrow> Inl err
      | Inr tid \<Rightarrow>
          if tid_prefix tid \<noteq> typePrefix then Inl ''typeid: prefix mismatch'' else Inr tid)"

text \<open>\<open>must\<close> panics on an error: the panic is the \<open>Inl\<close> branch.\<close>

definition must :: "string + 'a \<Rightarrow> error + 'a" where
  "must r = (case r of Inl err \<Rightarrow> Inl (Opaque err) | Inr v \<Rightarrow> Inr v)"

definition NewRoleID_typed :: "string \<Rightarrow> error + TypeID" where
  "NewRoleID_typed fresh = must (typeid_New RolePrefix_Prefix fresh)"
definition NewPermissionID_typed :: "string \<Rightarrow> error + TypeID" where
  "NewPermissionID_typed fresh = must (typeid_New PermissionPrefix_Prefix fresh)"
definition NewAssignmentID_typed :: "string \<Rightarrow> error + TypeID" where
  "NewAssignmentID_typed fresh = must (typeid_New AssignmentPrefix_Prefix fresh)"
definition NewPolicyID_typed :: "string \<Rightarrow> error + TypeID" where
  "NewPolicyID_typed fresh = must (typeid_New PolicyPrefix_Prefix fresh)"
definition NewRelationID_typed :: "string \<Rightarrow> error + TypeID" where
  "NewRelationID_typed fresh = must (typeid_New RelationPrefix_Prefix fresh)"
definition NewCheckLogID_typed :: "string \<Rightarrow> error + TypeID" where
  "NewCheckLogID_typed fresh = must (typeid_New CheckLogPrefix_Prefix fresh)"
definition NewResourceTypeID_typed :: "string \<Rightarrow> error + TypeID" where
  "NewResourceTypeID_typed fresh = must (typeid_New ResourceTypePrefix_Prefix fresh)"
definition NewConditionID_typed :: "string \<Rightarrow> error + TypeID" where
  "NewConditionID_typed fresh = must (typeid_New ConditionPrefix_Prefix fresh)"

definition ParseRoleID_typed :: "string \<Rightarrow> string + TypeID" where
  "ParseRoleID_typed s = typeid_ParseAs RolePrefix_Prefix s"
definition ParsePermissionID_typed :: "string \<Rightarrow> string + TypeID" where
  "ParsePermissionID_typed s = typeid_ParseAs PermissionPrefix_Prefix s"
definition ParseAssignmentID_typed :: "string \<Rightarrow> string + TypeID" where
  "ParseAssignmentID_typed s = typeid_ParseAs AssignmentPrefix_Prefix s"
definition ParsePolicyID_typed :: "string \<Rightarrow> string + TypeID" where
  "ParsePolicyID_typed s = typeid_ParseAs PolicyPrefix_Prefix s"
definition ParseRelationID_typed :: "string \<Rightarrow> string + TypeID" where
  "ParseRelationID_typed s = typeid_ParseAs RelationPrefix_Prefix s"
definition ParseCheckLogID_typed :: "string \<Rightarrow> string + TypeID" where
  "ParseCheckLogID_typed s = typeid_ParseAs CheckLogPrefix_Prefix s"
definition ParseResourceTypeID_typed :: "string \<Rightarrow> string + TypeID" where
  "ParseResourceTypeID_typed s = typeid_ParseAs ResourceTypePrefix_Prefix s"
definition ParseConditionID_typed :: "string \<Rightarrow> string + TypeID" where
  "ParseConditionID_typed s = typeid_ParseAs ConditionPrefix_Prefix s"

fun typedPrefixOf :: "Kind \<Rightarrow> string" where
  "typedPrefixOf KRole = RolePrefix_Prefix"
| "typedPrefixOf KPermission = PermissionPrefix_Prefix"
| "typedPrefixOf KAssignment = AssignmentPrefix_Prefix"
| "typedPrefixOf KPolicy = PolicyPrefix_Prefix"
| "typedPrefixOf KRelation = RelationPrefix_Prefix"
| "typedPrefixOf KCheckLog = CheckLogPrefix_Prefix"
| "typedPrefixOf KResourceType = ResourceTypePrefix_Prefix"
| "typedPrefixOf KCondition = ConditionPrefix_Prefix"

fun typedNewFor :: "Kind \<Rightarrow> string \<Rightarrow> error + TypeID" where
  "typedNewFor KRole = NewRoleID_typed"
| "typedNewFor KPermission = NewPermissionID_typed"
| "typedNewFor KAssignment = NewAssignmentID_typed"
| "typedNewFor KPolicy = NewPolicyID_typed"
| "typedNewFor KRelation = NewRelationID_typed"
| "typedNewFor KCheckLog = NewCheckLogID_typed"
| "typedNewFor KResourceType = NewResourceTypeID_typed"
| "typedNewFor KCondition = NewConditionID_typed"

fun typedParserFor :: "Kind \<Rightarrow> string \<Rightarrow> string + TypeID" where
  "typedParserFor KRole = ParseRoleID_typed"
| "typedParserFor KPermission = ParsePermissionID_typed"
| "typedParserFor KAssignment = ParseAssignmentID_typed"
| "typedParserFor KPolicy = ParsePolicyID_typed"
| "typedParserFor KRelation = ParseRelationID_typed"
| "typedParserFor KCheckLog = ParseCheckLogID_typed"
| "typedParserFor KResourceType = ParseResourceTypeID_typed"
| "typedParserFor KCondition = ParseConditionID_typed"

section \<open>policy: ABAC policies\<close>

text \<open>\<open>Effect\<close> and \<open>Operator\<close> are string types in the source.\<close>

abbreviation EffectAllow :: string where "EffectAllow \<equiv> ''allow''"
abbreviation EffectDeny :: string where "EffectDeny \<equiv> ''deny''"

record SubjectMatch =
  sm_Kind :: string
  sm_ID :: string
  sm_Role :: string

record Condition =
  c_ID :: ID
  c_Field :: string
  c_Operator :: string
  c_Value :: Value

text \<open>
  The fields of \<open>Policy\<close> without \<open>Metadata\<close> and the two timestamps, which the engine
  never reads.
\<close>

record Policy =
  pol_ID :: ID
  pol_TenantID :: string
  pol_AppID :: string
  pol_Name :: string
  pol_Description :: string
  pol_Effect :: string
  pol_Priority :: int
  pol_IsActive :: bool
  pol_Version :: int
  pol_Subjects :: "SubjectMatch list"
  pol_Actions :: "string list"
  pol_Resources :: "string list"
  pol_Conditions :: "Condition list"

section \<open>The ABAC condition evaluator\<close>

fun subjectsLoop :: "SubjectMatch list \<Rightarrow> CheckRequest \<Rightarrow> bool" where
  "subjectsLoop [] req = False"
| "subjectsLoop (sm # rest) req =
     (if sm_Kind sm \<noteq> [] \<and> sm_Kind sm \<noteq> sub_Kind (req_Subject req) then subjectsLoop rest req
      else if sm_ID sm \<noteq> [] \<and> sm_ID sm \<noteq> sub_ID (req_Subject req) then subjectsLoop rest req
      else True)"

definition matchesSubject :: "Policy \<Rightarrow> CheckRequest \<Rightarrow> bool" where
  "matchesSubject pol req =
     (if length (pol_Subjects pol) = 0 then True else subjectsLoop (pol_Subjects pol) req)"

fun actionsLoop :: "string list \<Rightarrow> CheckRequest \<Rightarrow> bool" where
  "actionsLoop [] req = False"
| "actionsLoop (a # rest) req =
     (if a = ''*'' \<or> matchGlob a (act_Name (req_Action req)) then True
      else actionsLoop rest req)"

definition matchesAction :: "Policy \<Rightarrow> CheckRequest \<Rightarrow> bool" where
  "matchesAction pol req =
     (if length (pol_Actions pol) = 0 then True else actionsLoop (pol_Actions pol) req)"

fun resourcesLoop :: "string list \<Rightarrow> string \<Rightarrow> string \<Rightarrow> CheckRequest \<Rightarrow> bool" where
  "resourcesLoop [] target targetType req = False"
| "resourcesLoop (r # rest) target targetType req =
     (if r = ''*'' \<or> r = target \<or> r = targetType then True
      else if matchGlob r target \<or> matchGlob r (res_Type (req_Resource req)) then True
      else resourcesLoop rest target targetType req)"

definition matchesResource :: "Policy \<Rightarrow> CheckRequest \<Rightarrow> bool" where
  "matchesResource pol req =
     (if length (pol_Resources pol) = 0 then True
      else resourcesLoop (pol_Resources pol)
             (res_Type (req_Resource req) @ '':'' @ res_ID (req_Resource req))
             (res_Type (req_Resource req) @ '':*'') req)"

text \<open>
  Indexing an attribute map: a missing key and a nil map both give \<open>nil\<close>.
\<close>

definition lookupAttr :: "(string \<rightharpoonup> Value) \<Rightarrow> string \<Rightarrow> Value" where
  "lookupAttr m k = (case m k of None \<Rightarrow> VNil | Some v \<Rightarrow> v)"

text \<open>
  \<open>strings.SplitN(field, ".", 2)\<close> cuts the field at its first dot; without a dot there is
  one part only and the field resolves to \<open>nil\<close>.
\<close>

definition resolveField :: "string \<Rightarrow> CheckRequest \<Rightarrow> Value" where
  "resolveField field req =
     (if CHR ''.'' \<notin> set field then VNil
      else (let p0 = takeWhile (\<lambda>c. c \<noteq> CHR ''.'') field;
                p1 = tl (dropWhile (\<lambda>c. c \<noteq> CHR ''.'') field)
            in if p0 = ''subject'' then
                 (if p1 = ''kind'' then VString (sub_Kind (req_Subject req))
                  else if p1 = ''id'' then VString (sub_ID (req_Subject req))
                  else lookupAttr (sub_Attributes (req_Subject req)) p1)
               else if p0 = ''resource'' then
                 (if p1 = ''type'' then VString (res_Type (req_Resource req))
                  else if p1 = ''id'' then VString (res_ID (req_Resource req))
                  else lookupAttr (res_Attributes (req_Resource req)) p1)
               else if p0 = ''action'' then
                 (if p1 = ''name'' then VString (act_Name (req_Action req)) else VNil)
               else if p0 = ''context'' then lookupAttr (req_Context req) p1
               else VNil))"

text \<open>
  \<open>evaluateCondition\<close> (the operator table over \<open>fmt.Sprint\<close>, float parsing, CIDR
  networks, RFC 3339 instants and regular expressions) is the parameter \<open>ec\<close>: it takes
  the operator, the resolved value and the expected value, and returns the verdict or an
  error. Everything stated below holds for every such function.
\<close>

type_synonym condEval = "string \<Rightarrow> Value \<Rightarrow> Value \<Rightarrow> error + bool"

fun evaluateConditions :: "condEval \<Rightarrow> Condition list \<Rightarrow> CheckRequest \<Rightarrow> error + bool" where
  "evaluateConditions ec [] req = Inr True"
| "evaluateConditions ec (c # rest) req =
     (case ec (c_Operator c) (resolveField (c_Field c) req) (c_Value c) of
        Inl err \<Rightarrow> Inl err
      | Inr ok \<Rightarrow> if \<not> ok then Inr False else evaluateConditions ec rest req)"

definition denyResult :: "Policy \<Rightarrow> CheckResult" where
  "denyResult pol =
     \<lparr>Allowed = False, Decision = DecisionDenyExplicit,
      Reason = ''denied by policy '' @ Quote (pol_Name pol),
      MatchedBy = [\<lparr>mi_Source = ''abac'', mi_RuleID = String (pol_ID pol),
                    mi_Detail = ''policy '' @ Quote (pol_Name pol) @ '' ('' @ pol_Effect pol @ '')''\<rparr>],
      EvalTimeNs = 0\<rparr>"

definition allowResult :: "Policy \<Rightarrow> CheckResult" where
  "allowResult pol =
     \<lparr>Allowed = True, Decision = DecisionAllow, Reason = [],
      MatchedBy = [\<lparr>mi_Source = ''abac'', mi_RuleID = String (pol_ID pol),
                    mi_Detail = ''policy '' @ Quote (pol_Name pol) @ '' ('' @ pol_Effect pol @ '')''\<rparr>],
      EvalTimeNs = 0\<rparr>"

text \<open>
  The loop of \<open>Evaluate\<close> over the policies, threading \<open>bestDeny\<close> and \<open>bestAllow\<close>; an
  error of the conditions ends it.
\<close>

fun policiesLoop :: "condEval \<Rightarrow> CheckRequest \<Rightarrow> Policy list \<Rightarrow> CheckResult option \<Rightarrow>
    CheckResult option \<Rightarrow> error + (CheckResult option \<times> CheckResult option)" where
  "policiesLoop ec req [] bestDeny bestAllow = Inr (bestDeny, bestAllow)"
| "policiesLoop ec req (pol # rest) bestDeny bestAllow =
     (if \<not> pol_IsActive pol then policiesLoop ec req rest bestDeny bestAllow
      else if \<not> matchesSubject pol req then policiesLoop ec req rest bestDeny bestAllow
      else if \<not> matchesAction pol req then policiesLoop ec req rest bestDeny bestAllow
      else if \<not> matchesResource pol req then policiesLoop ec req rest bestDeny bestAllow
      else case evaluateConditions ec (pol_Conditions pol) req of
             Inl err \<Rightarrow>
               Inl (Wrap (''evaluate conditions for policy '' @ pol_Name pol @ '': '') err)
           | Inr conditionsMet \<Rightarrow>
               if \<not> conditionsMet then policiesLoop ec req rest bestDeny bestAllow
               else if pol_Effect pol = EffectDeny
               then policiesLoop ec req rest
                      (if bestDeny = None then Some (denyResult pol) else bestDeny) bestAllow
               else policiesLoop ec req rest bestDeny
                      (if bestAllow = None then Some (allowResult pol) else bestAllow))"

text \<open>\<open>Evaluate\<close> returns a result pointer that may be nil: \<open>None\<close>.\<close>

definition Evaluate :: "condEval \<Rightarrow> Policy list \<Rightarrow> CheckRequest \<Rightarrow> error + CheckResult option" where
  "Evaluate ec policies req =
     (if length policies = 0 then Inr None
      else case policiesLoop ec req policies None None of
             Inl err \<Rightarrow> Inl err
           | Inr (bestDeny, bestAllow) \<Rightarrow>
               if bestDeny \<noteq> None then Inr bestDeny
               else if bestAllow \<noteq> None then Inr bestAllow
               else Inr None)"

text \<open>
  A policy matches a request when the loop body of \<open>Evaluate\<close> reaches its effect: it is
  active, its three filters pass and its conditions hold.
\<close>

definition policyMatches :: "condEval \<Rightarrow> Policy \<Rightarrow> CheckRequest \<Rightarrow> bool" where
  "policyMatches ec pol req =
     (pol_IsActive pol \<and> matchesSubject pol req \<and> matchesAction pol req \<and>
      matchesResource pol req \<and> evaluateConditions ec (pol_Conditions pol) req = Inr True)"

section \<open>Entities of the store\<close>

text \<open>
  The entity records keep the fields the engine or the store operations below read;
  descriptive fields, metadata maps and creation timestamps are left out. An optional
  pointer field (\<open>ParentID\<close>, \<open>ExpiresAt\<close>) is an option.
\<close>

record Role =
  role_ID :: ID
  role_TenantID :: string
  role_Slug :: string
  role_ParentID :: "ID option"

record Permission =
  perm_ID :: ID
  perm_TenantID :: string
  perm_Name :: string
  perm_Resource :: string
  perm_Action :: string

record Assignment =
  asg_ID :: ID
  asg_TenantID :: string
  asg_RoleID :: ID
  asg_SubjectKind :: string
  asg_SubjectID :: string
  asg_ResourceType :: string
  asg_ResourceID :: string
  asg_ExpiresAt :: "int option"

record Tuple =
  tup_ID :: ID
  tup_TenantID :: string
  tup_ObjectType :: string
  tup_ObjectID :: string
  tup_Relation :: string
  tup_SubjectType :: string
  tup_SubjectID :: string
  tup_SubjectRelation :: string

section \<open>store: the operations the engine calls\<close>

text \<open>
  The composite store is an interface; the engine sees it through the eight operations
  below. Each returns its value or an error; a returned entity pointer may be nil.
\<close>

record Store =
  ListRolesForSubject :: "string \<Rightarrow> string \<Rightarrow> string \<Rightarrow> error + ID list"
  ListRolesForSubjectOnResource ::
    "string \<Rightarrow> string \<Rightarrow> string \<Rightarrow> string \<Rightarrow> string \<Rightarrow> error + ID list"
  GetRole :: "ID \<Rightarrow> error + Role option"
  ListRolePermissions :: "ID \<Rightarrow> error + ID list"
  GetPermission :: "ID \<Rightarrow> error + Permission option"
  CheckDirectRelation ::
    "string \<Rightarrow> string \<Rightarrow> string \<Rightarrow> string \<Rightarrow> string \<Rightarrow> string \<Rightarrow> error + bool"
  ListRelationSubjects :: "string \<Rightarrow> string \<Rightarrow> string \<Rightarrow> string \<Rightarrow> error + Tuple list"
  ListActivePolicies :: "string \<Rightarrow> error + Policy list"

section \<open>store/memory: the in-memory store\<close>

text \<open>
  The assignment and relation tables of the in-memory store: Go maps keyed by the
  entity's identifier text, kept as association lists whose order stands for the
  unspecified iteration order of the map.
\<close>

record MemStore =
  assignments :: "(string \<times> Assignment) list"
  relations :: "(string \<times> Tuple) list"

definition mem_CreateAssignment :: "MemStore \<Rightarrow> Assignment \<Rightarrow> MemStore" where
  "mem_CreateAssignment s a =
     s\<lparr>assignments := AList.update (String (asg_ID a)) a (assignments s)\<rparr>"

definition mem_ListRolesForSubject ::
    "MemStore \<Rightarrow> string \<Rightarrow> string \<Rightarrow> string \<Rightarrow> error + ID list" where
  "mem_ListRolesForSubject s tenantID subjectKind subjectID =
     Inr (map (\<lambda>(k, a). asg_RoleID a)
            (filter (\<lambda>(k, a). asg_TenantID a = tenantID \<and> asg_SubjectKind a = subjectKind \<and>
                               asg_SubjectID a = subjectID \<and> asg_ResourceType a = [])
               (assignments s)))"

definition mem_ListRolesForSubjectOnResource ::
    "MemStore \<Rightarrow> string \<Rightarrow> string \<Rightarrow> string \<Rightarrow> string \<Rightarrow> string \<Rightarrow> error + ID list" where
  "mem_ListRolesForSubjectOnResource s tenantID subjectKind subjectID resourceType resourceID =
     Inr (map (\<lambda>(k, a). asg_RoleID a)
            (filter (\<lambda>(k, a). asg_TenantID a = tenantID \<and> asg_SubjectKind a = subjectKind \<and>
                               asg_SubjectID a = subjectID \<and> asg_ResourceType a = resourceType \<and>
                               asg_ResourceID a = resourceID)
               (assignments s)))"

text \<open>
  An assignment is expired at \<open>now\<close> when its \<open>ExpiresAt\<close> is set and before \<open>now\<close>:
  the test of \<open>DeleteExpiredAssignments\<close>.
\<close>

definition expiredAt :: "int \<Rightarrow> Assignment \<Rightarrow> bool" where
  "expiredAt now a = (case asg_ExpiresAt a of None \<Rightarrow> False | Some t \<Rightarrow> t < now)"

definition mem_DeleteExpiredAssignments :: "MemStore \<Rightarrow> int \<Rightarrow> (int \<times> error option) \<times> MemStore" where
  "mem_DeleteExpiredAssignments s now =
     ((int (length (filter (\<lambda>(k, a). expiredAt now a) (assignments s))), None),
      s\<lparr>assignments := filter (\<lambda>(k, a). \<not> expiredAt now a) (assignments s)\<rparr>)"

definition mem_ListRelationSubjects ::
    "MemStore \<Rightarrow> string \<Rightarrow> string \<Rightarrow> string \<Rightarrow> string \<Rightarrow> error + Tuple list" where
  "mem_ListRelationSubjects s tenantID objectType objectID rel =
     Inr (map snd
            (filter (\<lambda>(k, t). tup_TenantID t = tenantID \<and> tup_ObjectType t = objectType \<and>
                               tup_ObjectID t = objectID \<and> tup_Relation t = rel)
               (relations s)))"

definition mem_CheckDirectRelation ::
    "MemStore \<Rightarrow> string \<Rightarrow> string \<Rightarrow> string \<Rightarrow> string \<Rightarrow> string \<Rightarrow> string \<Rightarrow> error + bool" where
  "mem_CheckDirectRelation s tenantID objectType objectID rel subjectType subjectID =
     Inr (list_ex (\<lambda>(k, t). tup_TenantID t = tenantID \<and> tup_ObjectType t = objectType \<and>
                            tup_ObjectID t = objectID \<and> tup_Relation t = rel \<and>
                            tup_SubjectType t = subjectType \<and> tup_SubjectID t = subjectID)
            (relations s))"

section \<open>graph\_walker.go: the breadth-first walker\<close>

record walkNode =
  wn_objectType :: string
  wn_objectID :: string
  wn_relation :: string
  wn_depth :: int
  wn_path :: "string list"

text \<open>
  The result \<open>(allowed, path, err)\<close> of \<open>Walk\<close>, with \<open>None\<close> for the nil error.
\<close>

type_synonym walkResult = "bool \<times> string \<times> error option"

definition visitKeyOf :: "string \<Rightarrow> string \<Rightarrow> string \<Rightarrow> string" where
  "visitKeyOf objectType objectID rel = objectType @ '':'' @ objectID @ ''#'' @ rel"

text \<open>
  The inner loop over the tuples of one node: \<open>Inl\<close> is the path of a direct match, which
  returns at once; \<open>Inr\<close> is the queue after every tuple has been appended.
\<close>

fun scanTuples :: "string \<Rightarrow> string \<Rightarrow> walkNode \<Rightarrow> Tuple list \<Rightarrow> walkNode list \<Rightarrow>
    string + walkNode list" where
  "scanTuples targetSubjectType targetSubjectID node [] queue = Inr queue"
| "scanTuples targetSubjectType targetSubjectID node (t # ts) queue =
     (if tup_SubjectType t = targetSubjectType \<and> tup_SubjectID t = targetSubjectID
      then Inl (Join (wn_path node @ [tup_SubjectType t @ '':'' @ tup_SubjectID t]) '' -> '')
      else if tup_SubjectRelation t \<noteq> []
      then scanTuples targetSubjectType targetSubjectID node ts
             (queue @ [\<lparr>wn_objectType = tup_SubjectType t, wn_objectID = tup_SubjectID t,
                         wn_relation = tup_SubjectRelation t, wn_depth = wn_depth node + 1,
                         wn_path = wn_path node @
                           [tup_SubjectType t @ '':'' @ tup_SubjectID t @ ''#'' @
                            tup_SubjectRelation t]\<rparr>])
      else scanTuples targetSubjectType targetSubjectID node ts
             (queue @ [\<lparr>wn_objectType = tup_SubjectType t, wn_objectID = tup_SubjectID t,
                         wn_relation = wn_relation node, wn_depth = wn_depth node + 1,
                         wn_path = wn_path node @
                           [tup_SubjectType t @ '':'' @ tup_SubjectID t]\<rparr>]))"

lemma scanTuples_appends:
  "scanTuples tt ti node ts queue = Inr queue' \<Longrightarrow>
     \<exists>new. queue' = queue @ new \<and> (\<forall>n \<in> set new. wn_depth n = wn_depth node + 1)"
proof (induction ts arbitrary: queue)
  case Nil
  then show ?case by simp
next
  case (Cons t ts)
  then show ?case by (fastforce split: if_splits)
qed

text \<open>
  The main loop. Beside the result it returns the list of \<open>ListRelationSubjects\<close> calls
  it made, each by its \<open>(objectType, objectID, relation)\<close>, in order: the expansions.
\<close>

function walkLoop ::
    "(string \<Rightarrow> string \<Rightarrow> string \<Rightarrow> string \<Rightarrow> error + Tuple list) \<Rightarrow> int \<Rightarrow> string \<Rightarrow> string \<Rightarrow>
     string \<Rightarrow> walkNode list \<Rightarrow> string set \<Rightarrow> (string \<times> string \<times> string) list \<Rightarrow>
     walkResult \<times> (string \<times> string \<times> string) list" where
  "walkLoop lrs maxDepth tenantID targetSubjectType targetSubjectID [] visited calls =
     ((False, [], None), calls)"
| "walkLoop lrs maxDepth tenantID targetSubjectType targetSubjectID (node # queue) visited calls =
     (if wn_depth node > maxDepth then ((False, [], Some ErrGraphDepthExceeded), calls)
      else if visitKeyOf (wn_objectType node) (wn_objectID node) (wn_relation node) \<in> visited
      then walkLoop lrs maxDepth tenantID targetSubjectType targetSubjectID queue visited calls
      else case lrs tenantID (wn_objectType node) (wn_objectID node) (wn_relation node) of
             Inl err \<Rightarrow>
               ((False, [],
                 Some (Wrap (''list subjects for '' @
                   visitKeyOf (wn_objectType node) (wn_objectID node) (wn_relation node) @ '': '')
                   err)),
                calls @ [(wn_objectType node, wn_objectID node, wn_relation node)])
           | Inr tuples \<Rightarrow>
               (case scanTuples targetSubjectType targetSubjectID node tuples queue of
                  Inl pathStr \<Rightarrow>
                    ((True, pathStr, None),
                     calls @ [(wn_objectType node, wn_objectID node, wn_relation node)])
                | Inr queue' \<Rightarrow>
                    walkLoop lrs maxDepth tenantID targetSubjectType targetSubjectID queue'
                      (insert (visitKeyOf (wn_objectType node) (wn_objectID node)
                                 (wn_relation node)) visited)
                      (calls @ [(wn_objectType node, wn_objectID node, wn_relation node)])))"
  by pat_completeness auto
termination
proof (relation "inv_image (mult {(a::nat, b). a < b})
    (\<lambda>(lrs, maxDepth, tenantID, tt, ti, queue, visited, calls).
       mset (map (\<lambda>n. nat (maxDepth + 1 - wn_depth n)) queue))", goal_cases)
  case 1
  show ?case by (intro wf_inv_image wf_mult wf_less)
next
  case (2 lrs maxDepth tenantID tt ti node queue visited calls)
  have "(mset (map (\<lambda>n. nat (maxDepth + 1 - wn_depth n)) queue) + {#},
         mset (map (\<lambda>n. nat (maxDepth + 1 - wn_depth n)) queue)
           + {#nat (maxDepth + 1 - wn_depth node)#}) \<in> mult {(a::nat, b). a < b}"
    by (rule one_step_implies_mult) auto
  then show ?case by simp
next
  case (3 lrs maxDepth tenantID tt ti node queue visited calls tuples queue')
  from 3(4) obtain new where q: "queue' = queue @ new"
    and d: "\<forall>n \<in> set new. wn_depth n = wn_depth node + 1"
    using scanTuples_appends by blast
  from 3(1) have le: "wn_depth node \<le> maxDepth" by simp
  have "(mset (map (\<lambda>n. nat (maxDepth + 1 - wn_depth n)) queue)
           + mset (map (\<lambda>n. nat (maxDepth + 1 - wn_depth n)) new),
         mset (map (\<lambda>n. nat (maxDepth + 1 - wn_depth n)) queue)
           + {#nat (maxDepth + 1 - wn_depth node)#}) \<in> mult {(a::nat, b). a < b}"
  proof (rule one_step_implies_mult)
    show "{#nat (maxDepth + 1 - wn_depth node)#} \<noteq> {#}" by simp
    show "\<forall>k \<in># mset (map (\<lambda>n. nat (maxDepth + 1 - wn_depth n)) new).
            \<exists>j \<in># {#nat (maxDepth + 1 - wn_depth node)#}. (k, j) \<in> {(a::nat, b). a < b}"
      using d le by auto
  qed
  then show ?case by (simp add: q)
qed

text \<open>\<open>Walk\<close> seeds the queue with the resource node at depth 0 and an empty visited set.\<close>

definition WalkTrace :: "int \<Rightarrow> Store \<Rightarrow> string \<Rightarrow> CheckRequest \<Rightarrow>
    walkResult \<times> (string \<times> string \<times> string) list" where
  "WalkTrace maxDepth relStore tenantID req =
     walkLoop (ListRelationSubjects relStore) maxDepth tenantID
       (sub_Kind (req_Subject req)) (sub_ID (req_Subject req))
       [\<lparr>wn_objectType = res_Type (req_Resource req), wn_objectID = res_ID (req_Resource req),
         wn_relation = act_Name (req_Action req), wn_depth = 0,
         wn_path = [res_Type (req_Resource req) @ '':'' @ res_ID (req_Resource req) @ ''#'' @
                    act_Name (req_Action req)]\<rparr>]
       {} []"

definition Walk :: "int \<Rightarrow> Store \<Rightarrow> string \<Rightarrow> CheckRequest \<Rightarrow> walkResult" where
  "Walk maxDepth relStore tenantID req = fst (WalkTrace maxDepth relStore tenantID req)"

definition DefaultGraphWalker :: "int \<Rightarrow> Store \<Rightarrow> string \<Rightarrow> CheckRequest \<Rightarrow> walkResult" where
  "DefaultGraphWalker maxDepth = Walk (if maxDepth \<le> 0 then 10 else maxDepth)"

section \<open>config.go and context.go\<close>

text \<open>The three enable flags are \<open>*bool\<close>: nil means enabled.\<close>

record Config =
  MaxGraphDepth :: int
  CacheTTL :: int
  EnableRBAC :: "bool option"
  EnableABAC :: "bool option"
  EnableReBAC :: "bool option"

definition DefaultConfig :: Config where
  "DefaultConfig = \<lparr>MaxGraphDepth = 10, CacheTTL = 0, EnableRBAC = Some True,
                     EnableABAC = Some True, EnableReBAC = Some True\<rparr>"

definition rbacEnabled :: "Config \<Rightarrow> bool" where
  "rbacEnabled c = (case EnableRBAC c of None \<Rightarrow> True | Some b \<Rightarrow> b)"

definition abacEnabled :: "Config \<Rightarrow> bool" where
  "abacEnabled c = (case EnableABAC c of None \<Rightarrow> True | Some b \<Rightarrow> b)"

definition rebacEnabled :: "Config \<Rightarrow> bool" where
  "rebacEnabled c = (case EnableReBAC c of None \<Rightarrow> True | Some b \<Rightarrow> b)"

text \<open>
  The request context as the scope resolver reads it: the scope object of the host
  framework, if any, as its \<open>(AppID, OrgID)\<close>, and the two standalone context values, each
  present only when it is bound to a string.
\<close>

record Context =
  ctx_forgeScope :: "(string \<times> string) option"
  ctx_appID :: "string option"
  ctx_tenantID :: "string option"

record tenantScope =
  ts_appID :: string
  ts_tenantID :: string

definition appIDFromContext :: "Context \<Rightarrow> string" where
  "appIDFromContext ctx = (case ctx_appID ctx of None \<Rightarrow> [] | Some v \<Rightarrow> v)"

definition tenantIDFromContext :: "Context \<Rightarrow> string" where
  "tenantIDFromContext ctx = (case ctx_tenantID ctx of None \<Rightarrow> [] | Some v \<Rightarrow> v)"

definition scopeFromContext :: "Context \<Rightarrow> tenantScope" where
  "scopeFromContext ctx =
     (case ctx_forgeScope ctx of
        Some (app, org) \<Rightarrow> \<lparr>ts_appID = app, ts_tenantID = org\<rparr>
      | None \<Rightarrow> \<lparr>ts_appID = appIDFromContext ctx, ts_tenantID = tenantIDFromContext ctx\<rparr>)"

section \<open>The engine: RBAC\<close>

text \<open>
  \<open>walkRoleParents\<close> mutates the \<open>seen\<close> set and the result slice it is handed; both are
  threaded through and returned.
\<close>

function walkRoleParents :: "Store \<Rightarrow> ID \<Rightarrow> string set \<times> ID list \<Rightarrow> int \<Rightarrow> string set \<times> ID list" where
  "walkRoleParents st roleID (seen, result) depth =
     (if String roleID \<in> seen then (seen, result)
      else if depth > 20 then (seen, result)
      else case GetRole st roleID of
             Inl err \<Rightarrow> (insert (String roleID) seen, result @ [roleID])
           | Inr None \<Rightarrow> (insert (String roleID) seen, result @ [roleID])
           | Inr (Some r) \<Rightarrow>
               (case role_ParentID r of
                  None \<Rightarrow> (insert (String roleID) seen, result @ [roleID])
                | Some parent \<Rightarrow>
                    walkRoleParents st parent
                      (insert (String roleID) seen, result @ [roleID]) (depth + 1)))"
  by pat_completeness auto
termination
  by (relation "measure (\<lambda>(st, roleID, acc, depth). nat (21 - depth))") auto

fun resolveLoop :: "Store \<Rightarrow> ID list \<Rightarrow> string set \<times> ID list \<Rightarrow> string set \<times> ID list" where
  "resolveLoop st [] acc = acc"
| "resolveLoop st (rid # rest) acc = resolveLoop st rest (walkRoleParents st rid acc 0)"

definition resolveInheritedRoles :: "Store \<Rightarrow> ID list \<Rightarrow> ID list" where
  "resolveInheritedRoles st roleIDs = snd (resolveLoop st roleIDs ({}, []))"

definition rbacAllow :: "ID \<Rightarrow> Permission \<Rightarrow> CheckResult" where
  "rbacAllow roleID perm =
     \<lparr>Allowed = True, Decision = DecisionAllow, Reason = [],
      MatchedBy = [\<lparr>mi_Source = ''rbac'', mi_RuleID = String roleID,
                    mi_Detail = ''role grants '' @ perm_Resource perm @ '':'' @ perm_Action perm\<rparr>],
      EvalTimeNs = 0\<rparr>"

text \<open>The inner loop over one role's permission ids: \<open>Some\<close> is the allow it returns.\<close>

fun permsLoop :: "Store \<Rightarrow> string \<Rightarrow> ID \<Rightarrow> ID list \<Rightarrow> CheckResult option" where
  "permsLoop st permName roleID [] = None"
| "permsLoop st permName roleID (permID # rest) =
     (case GetPermission st permID of
        Inl err \<Rightarrow> permsLoop st permName roleID rest
      | Inr None \<Rightarrow> permsLoop st permName roleID rest
      | Inr (Some perm) \<Rightarrow>
          if matchPermission (perm_Resource perm @ '':'' @ perm_Action perm) permName
          then Some (rbacAllow roleID perm)
          else permsLoop st permName roleID rest)"

text \<open>The outer loop over the effective roles, ending in the deny after the loop.\<close>

fun rolesLoop :: "Store \<Rightarrow> string \<Rightarrow> ID list \<Rightarrow> CheckResult" where
  "rolesLoop st permName [] =
     zeroResult\<lparr>Decision := DecisionDenyNoPerms, Reason := ''no role grants required permission''\<rparr>"
| "rolesLoop st permName (roleID # rest) =
     (case ListRolePermissions st roleID of
        Inl err \<Rightarrow> rolesLoop st permName rest
      | Inr perms \<Rightarrow>
          (case permsLoop st permName roleID perms of
             Some r \<Rightarrow> r
           | None \<Rightarrow> rolesLoop st permName rest))"

definition evaluateRBAC :: "Store \<Rightarrow> tenantScope \<Rightarrow> CheckRequest \<Rightarrow> error + CheckResult" where
  "evaluateRBAC st scope req =
     (case ListRolesForSubject st (ts_tenantID scope) (sub_Kind (req_Subject req))
             (sub_ID (req_Subject req)) of
        Inl err \<Rightarrow> Inl err
      | Inr globalRoles \<Rightarrow>
          (case ListRolesForSubjectOnResource st (ts_tenantID scope) (sub_Kind (req_Subject req))
                  (sub_ID (req_Subject req)) (res_Type (req_Resource req))
                  (res_ID (req_Resource req)) of
             Inl err \<Rightarrow> Inl err
           | Inr resourceRoles \<Rightarrow>
               if length (globalRoles @ resourceRoles) = 0
               then Inr (zeroResult\<lparr>Decision := DecisionDenyNoRoles,
                                     Reason := ''subject has no roles''\<rparr>)
               else Inr (rolesLoop st
                           (res_Type (req_Resource req) @ '':'' @ act_Name (req_Action req))
                           (resolveInheritedRoles st (globalRoles @ resourceRoles)))))"

section \<open>The engine: ReBAC\<close>

text \<open>
  The engine holds its walker behind the \<open>GraphWalker\<close> interface, and the field may be
  nil: the walker is an optional function from store, tenant and request to the triple
  \<open>Walk\<close> returns.
\<close>

type_synonym GraphWalker = "Store \<Rightarrow> string \<Rightarrow> CheckRequest \<Rightarrow> walkResult"

definition rebacDeny :: CheckResult where
  "rebacDeny = zeroResult\<lparr>Decision := DecisionDenyRelation, Reason := ''no relation found''\<rparr>"

definition evaluateReBAC ::
    "Store \<Rightarrow> GraphWalker option \<Rightarrow> tenantScope \<Rightarrow> CheckRequest \<Rightarrow> error + CheckResult" where
  "evaluateReBAC st graphWalker scope req =
     (case CheckDirectRelation st (ts_tenantID scope) (res_Type (req_Resource req))
             (res_ID (req_Resource req)) (act_Name (req_Action req))
             (sub_Kind (req_Subject req)) (sub_ID (req_Subject req)) of
        Inl err \<Rightarrow> Inl err
      | Inr direct \<Rightarrow>
          if direct
          then Inr (zeroResult\<lparr>Allowed := True, Decision := DecisionAllow,
                      MatchedBy := [\<lparr>mi_Source = ''rebac'', mi_RuleID = [],
                                     mi_Detail = ''direct relation''\<rparr>]\<rparr>)
          else (case graphWalker of
                  None \<Rightarrow> Inr rebacDeny
                | Some walker \<Rightarrow>
                    (case walker st (ts_tenantID scope) req of
                       (allowed, path, err) \<Rightarrow>
                         (case (case err of
                                  None \<Rightarrow> None
                                | Some e \<Rightarrow> if \<not> errors_Is e ErrGraphDepthExceeded
                                            then Some e else None) of
                            Some e \<Rightarrow> Inl e
                          | None \<Rightarrow>
                              if allowed
                              then Inr (zeroResult\<lparr>Allowed := True, Decision := DecisionAllow,
                                          MatchedBy := [\<lparr>mi_Source = ''rebac'', mi_RuleID = [],
                                                         mi_Detail = ''transitive: '' @ path\<rparr>]\<rparr>)
                              else Inr rebacDeny))))"

section \<open>The engine: ABAC and the merge\<close>

type_synonym Evaluator = "Policy list \<Rightarrow> CheckRequest \<Rightarrow> error + CheckResult option"

definition DefaultEvaluator :: "condEval \<Rightarrow> Evaluator" where
  "DefaultEvaluator ec = Evaluate ec"

definition evaluateABAC ::
    "Store \<Rightarrow> Evaluator \<Rightarrow> tenantScope \<Rightarrow> CheckRequest \<Rightarrow> error + CheckResult option" where
  "evaluateABAC st evaluator scope req =
     (case ListActivePolicies st (ts_tenantID scope) of
        Inl err \<Rightarrow> Inl err
      | Inr policies \<Rightarrow> evaluator policies req)"

text \<open>The two loops of \<open>mergeDecisions\<close> over the slice \<open>{rbac, rebac, abac}\<close>.\<close>

fun firstAllowed :: "CheckResult option list \<Rightarrow> CheckResult option" where
  "firstAllowed [] = None"
| "firstAllowed (None # rs) = firstAllowed rs"
| "firstAllowed (Some r # rs) = (if Allowed r then Some r else firstAllowed rs)"

fun firstWithReason :: "CheckResult option list \<Rightarrow> CheckResult option" where
  "firstWithReason [] = None"
| "firstWithReason (None # rs) = firstWithReason rs"
| "firstWithReason (Some r # rs) = (if Reason r \<noteq> [] then Some r else firstWithReason rs)"

definition explicitDeny :: "CheckResult option \<Rightarrow> CheckResult option" where
  "explicitDeny abac =
     (case abac of
        None \<Rightarrow> None
      | Some a \<Rightarrow> if Decision a = DecisionDenyExplicit then Some a else None)"

definition mergeDecisions ::
    "CheckResult option \<Rightarrow> CheckResult option \<Rightarrow> CheckResult option \<Rightarrow> CheckResult" where
  "mergeDecisions rbac rebac abac =
     (case explicitDeny abac of
        Some a \<Rightarrow> a
      | None \<Rightarrow>
          (case firstAllowed [rbac, rebac, abac] of
             Some r \<Rightarrow> r
           | None \<Rightarrow>
               (case firstWithReason [rbac, rebac, abac] of
                  Some r \<Rightarrow> r
                | None \<Rightarrow> zeroResult\<lparr>Decision := DecisionDenyDefault,
                                       Reason := ''no matching allow rule''\<rparr>)))"

section \<open>The engine: Check\<close>

text \<open>
  What \<open>Check\<close> does beyond returning: it reads the clock, mutates the cache and the
  \<open>CheckResult\<close> objects behind pointers, calls the plugin hooks and runs the evaluators,
  which are the only code of \<open>Check\<close> that calls the store. The world threaded through
  \<open>Check\<close> holds the heap of results (a pointer is an index into it), the cache (nil when
  the engine has none) and the trace of events: one event per hook invocation, per
  evaluator run and per \<open>Set\<close> on the cache. The plugin registry is given by the names of
  the plugins registered for the two check hooks, in registration order.
\<close>

datatype event =
    OnBeforeCheck string CheckRequest
  | RunRBAC
  | RunReBAC
  | RunABAC
  | CacheSet string
  | OnAfterCheck string CheckRequest ref

record Registry =
  beforeCheck :: "string list"
  afterCheck :: "string list"

record Engine =
  e_store :: Store
  e_evaluator :: Evaluator
  e_graphWalker :: "GraphWalker option"
  e_plugins :: "Registry option"
  e_config :: Config

record World =
  w_heap :: "CheckResult list"
  w_cache :: "Memory option"
  w_trace :: "event list"

text \<open>
  The clock readings of one \<open>Check\<close>: at its start, inside \<open>Get\<close>, at the
  \<open>time.Since(start)\<close> it reaches, and the two inside \<open>Set\<close>.
\<close>

record Clock =
  t_start :: int
  t_get :: int
  t_since :: int
  t_evict :: int
  t_store :: int

definition EmitBeforeCheck :: "Registry \<Rightarrow> CheckRequest \<Rightarrow> World \<Rightarrow> World" where
  "EmitBeforeCheck reg req w =
     w\<lparr>w_trace := w_trace w @ map (\<lambda>name. OnBeforeCheck name req) (beforeCheck reg)\<rparr>"

definition EmitAfterCheck :: "Registry \<Rightarrow> CheckRequest \<Rightarrow> ref \<Rightarrow> World \<Rightarrow> World" where
  "EmitAfterCheck reg req result w =
     w\<lparr>w_trace := w_trace w @ map (\<lambda>name. OnAfterCheck name req result) (afterCheck reg)\<rparr>"

definition logEvent :: "event \<Rightarrow> World \<Rightarrow> World" where
  "logEvent ev w = w\<lparr>w_trace := w_trace w @ [ev]\<rparr>"

text \<open>The assignment \<open>p.EvalTimeNs = t\<close> through a pointer \<open>p\<close>.\<close>

definition setEvalTimeNs :: "ref \<Rightarrow> int \<Rightarrow> CheckResult list \<Rightarrow> CheckResult list" where
  "setEvalTimeNs p t heap = (if p < length heap then heap[p := (heap ! p)\<lparr>EvalTimeNs := t\<rparr>] else heap)"

text \<open>
  The cache probe: \<open>None\<close> when the engine has no cache or \<open>Get\<close> misses; the cache after
  the probe is stored back.
\<close>

definition probe :: "Clock \<Rightarrow> tenantScope \<Rightarrow> CheckRequest \<Rightarrow> World \<Rightarrow> ref option \<times> World" where
  "probe clk scope req w =
     (case w_cache w of
        None \<Rightarrow> (None, w)
      | Some m \<Rightarrow>
          (case Memory_Get m (t_get clk) (ts_tenantID scope) req of
             (hit, m') \<Rightarrow> (hit, w\<lparr>w_cache := Some m'\<rparr>)))"

text \<open>Steps 5 to 7 of \<open>Check\<close>: merge, stamp, cache, after-check hook.\<close>

definition finish :: "Engine \<Rightarrow> Clock \<Rightarrow> tenantScope \<Rightarrow> CheckRequest \<Rightarrow> CheckResult option \<Rightarrow>
    CheckResult option \<Rightarrow> CheckResult option \<Rightarrow> World \<Rightarrow> (error + ref) \<times> World" where
  "finish e clk scope req rbacResult rebacResult abacResult w =
     (let result = length (w_heap w);
          w1 = w\<lparr>w_heap := w_heap w @
                  [(mergeDecisions rbacResult rebacResult abacResult)
                     \<lparr>EvalTimeNs := t_since clk - t_start clk\<rparr>]\<rparr>;
          w2 = (case w_cache w1 of
                  None \<Rightarrow> w1
                | Some m \<Rightarrow>
                    logEvent (CacheSet (cacheKey (ts_tenantID scope) req))
                      (w1\<lparr>w_cache := Some (Memory_Set m (t_evict clk) (t_store clk)
                                              (ts_tenantID scope) req result)\<rparr>));
          w3 = (case e_plugins e of None \<Rightarrow> w2 | Some reg \<Rightarrow> EmitAfterCheck reg req result w2)
      in (Inr result, w3))"

definition stepABAC :: "Engine \<Rightarrow> Clock \<Rightarrow> tenantScope \<Rightarrow> CheckRequest \<Rightarrow> CheckResult option \<Rightarrow>
    CheckResult option \<Rightarrow> World \<Rightarrow> (error + ref) \<times> World" where
  "stepABAC e clk scope req rbacResult rebacResult w =
     (if abacEnabled (e_config e)
      then (case evaluateABAC (e_store e) (e_evaluator e) scope req of
              Inl err \<Rightarrow> (Inl (Wrap ''warden abac: '' err), logEvent RunABAC w)
            | Inr abacResult \<Rightarrow>
                finish e clk scope req rbacResult rebacResult abacResult (logEvent RunABAC w))
      else finish e clk scope req rbacResult rebacResult None w)"

definition stepReBAC :: "Engine \<Rightarrow> Clock \<Rightarrow> tenantScope \<Rightarrow> CheckRequest \<Rightarrow> CheckResult option \<Rightarrow>
    World \<Rightarrow> (error + ref) \<times> World" where
  "stepReBAC e clk scope req rbacResult w =
     (if rebacEnabled (e_config e)
      then (case evaluateReBAC (e_store e) (e_graphWalker e) scope req of
              Inl err \<Rightarrow> (Inl (Wrap ''warden rebac: '' err), logEvent RunReBAC w)
            | Inr rebacResult \<Rightarrow>
                stepABAC e clk scope req rbacResult (Some rebacResult) (logEvent RunReBAC w))
      else stepABAC e clk scope req rbacResult None w)"

definition stepRBAC :: "Engine \<Rightarrow> Clock \<Rightarrow> tenantScope \<Rightarrow> CheckRequest \<Rightarrow> World \<Rightarrow>
    (error + ref) \<times> World" where
  "stepRBAC e clk scope req w =
     (if rbacEnabled (e_config e)
      then (case evaluateRBAC (e_store e) scope req of
              Inl err \<Rightarrow> (Inl (Wrap ''warden rbac: '' err), logEvent RunRBAC w)
            | Inr rbacResult \<Rightarrow> stepReBAC e clk scope req (Some rbacResult) (logEvent RunRBAC w))
      else stepReBAC e clk scope req None w)"

definition Check :: "Engine \<Rightarrow> Clock \<Rightarrow> Context \<Rightarrow> CheckRequest \<Rightarrow> World \<Rightarrow> (error + ref) \<times> World" where
  "Check e clk ctx req w =
     (case probe clk (scopeFromContext ctx) req w of
        (Some cached, w1) \<Rightarrow>
          (Inr cached, w1\<lparr>w_heap := setEvalTimeNs cached (t_since clk - t_start clk) (w_heap w1)\<rparr>)
      | (None, w1) \<Rightarrow>
          stepRBAC e clk (scopeFromContext ctx) req
            (case e_plugins e of None \<Rightarrow> w1 | Some reg \<Rightarrow> EmitBeforeCheck reg req w1))"

section \<open>Failing store calls read as empty answers\<close>


section \<open>Example inputs\<close>

text \<open>
  Concrete stores, policies, requests and engines on which the properties below are
  evaluated.
\<close>

definition c4_cache :: Memory where
  "c4_cache = \<lparr>entries = [(''t1:user:u1:read:document:d1'', \<lparr>e_result = 0, e_expiresAt = 1000\<rparr>)],
               ttl = 1000, maxSize = 10000\<rparr>"

definition c4_req :: CheckRequest where
  "c4_req = \<lparr>req_Subject = \<lparr>sub_Kind = ''user'', sub_ID = ''u1'', sub_Attributes = Map.empty\<rparr>,
             req_Action = \<lparr>act_Name = ''read''\<rparr>,
             req_Resource = \<lparr>res_Type = ''document'', res_ID = ''d1'', res_Attributes = Map.empty\<rparr>,
             req_Context = Map.empty\<rparr>"

text \<open>
  A request from 10.0.1.5 against an allow-all policy and a deny policy conditioned on
  the caller's address, with RBAC allowing: the explicit deny wins. The condition
  evaluator of the example knows the operator \<open>ip_in_cidr\<close> for this one network and
  address and rejects every other operator.
\<close>

definition c1_ec :: condEval where
  "c1_ec op actual expected =
     (if op = ''ip_in_cidr''
      then Inr (actual = VString ''10.0.1.5'' \<and> expected = VString ''10.0.0.0/8'')
      else Inl (Wrap ''unknown operator'' ErrInvalidCondition))"

definition c1_req :: CheckRequest where
  "c1_req = \<lparr>req_Subject = \<lparr>sub_Kind = ''user'', sub_ID = ''u1'', sub_Attributes = Map.empty\<rparr>,
             req_Action = \<lparr>act_Name = ''read''\<rparr>,
             req_Resource = \<lparr>res_Type = ''document'', res_ID = ''doc1'', res_Attributes = Map.empty\<rparr>,
             req_Context = [''ip'' \<mapsto> VString ''10.0.1.5'']\<rparr>"

definition c1_allow_all :: Policy where
  "c1_allow_all = \<lparr>pol_ID = Nil_ID, pol_TenantID = ''t1'', pol_AppID = [], pol_Name = ''allow-all'',
     pol_Description = [], pol_Effect = EffectAllow, pol_Priority = 1, pol_IsActive = True,
     pol_Version = 1, pol_Subjects = [], pol_Actions = [''*''], pol_Resources = [],
     pol_Conditions = []\<rparr>"

definition c1_deny_net :: Policy where
  "c1_deny_net = \<lparr>pol_ID = Nil_ID, pol_TenantID = ''t1'', pol_AppID = [], pol_Name = ''deny-net'',
     pol_Description = [], pol_Effect = EffectDeny, pol_Priority = 2, pol_IsActive = True,
     pol_Version = 1, pol_Subjects = [], pol_Actions = [], pol_Resources = [],
     pol_Conditions = [\<lparr>c_ID = Nil_ID, c_Field = ''context.ip'', c_Operator = ''ip_in_cidr'',
                        c_Value = VString ''10.0.0.0/8''\<rparr>]\<rparr>"

definition c1_rbac :: CheckResult where
  "c1_rbac = zeroResult\<lparr>Allowed := True, Decision := DecisionAllow\<rparr>"

text \<open>
  A policy whose only subject matcher names the role \<open>admin\<close>, and a request by a user
  whose role attribute is \<open>viewer\<close>.
\<close>

definition c6_policy :: Policy where
  "c6_policy = \<lparr>pol_ID = Nil_ID, pol_TenantID = ''t1'', pol_AppID = [], pol_Name = ''admins-only'',
     pol_Description = [], pol_Effect = EffectAllow, pol_Priority = 1, pol_IsActive = True,
     pol_Version = 1,
     pol_Subjects = [\<lparr>sm_Kind = [], sm_ID = [], sm_Role = ''admin''\<rparr>],
     pol_Actions = [], pol_Resources = [], pol_Conditions = []\<rparr>"

definition c6_request :: CheckRequest where
  "c6_request = \<lparr>req_Subject = \<lparr>sub_Kind = ''user'', sub_ID = ''mallory'',
                                sub_Attributes = [''role'' \<mapsto> VString ''viewer'']\<rparr>,
             req_Action = \<lparr>act_Name = ''delete''\<rparr>,
             req_Resource = \<lparr>res_Type = ''document'', res_ID = ''d1'', res_Attributes = Map.empty\<rparr>,
             req_Context = Map.empty\<rparr>"







text \<open>
  A chain of folders under a document, walked with depth cap 1: the node of the second
  folder is popped at depth 2. The same chain behind a store whose tuple listing fails.
\<close>

definition mkTuple :: "string \<Rightarrow> string \<Rightarrow> string \<Rightarrow> string \<Rightarrow> string \<Rightarrow> string \<Rightarrow> Tuple" where
  "mkTuple ot oi r st si sr =
     \<lparr>tup_ID = Nil_ID, tup_TenantID = ''t1'', tup_ObjectType = ot, tup_ObjectID = oi,
      tup_Relation = r, tup_SubjectType = st, tup_SubjectID = si, tup_SubjectRelation = sr\<rparr>"

definition c3_mem :: MemStore where
  "c3_mem = \<lparr>assignments = [],
     relations = [(''rel_1'', mkTuple ''document'' ''d1'' ''viewer'' ''folder'' ''f1'' []),
                  (''rel_2'', mkTuple ''folder'' ''f1'' ''viewer'' ''folder'' ''f2'' []),
                  (''rel_3'', mkTuple ''folder'' ''f2'' ''viewer'' ''user'' ''bob'' [])]\<rparr>"

definition c3_store :: Store where
  "c3_store = \<lparr>ListRolesForSubject = mem_ListRolesForSubject c3_mem,
     ListRolesForSubjectOnResource = mem_ListRolesForSubjectOnResource c3_mem,
     GetRole = (\<lambda>r. Inl (Opaque ''not found'')),
     ListRolePermissions = (\<lambda>r. Inr []),
     GetPermission = (\<lambda>p. Inl (Opaque ''not found'')),
     CheckDirectRelation = mem_CheckDirectRelation c3_mem,
     ListRelationSubjects = mem_ListRelationSubjects c3_mem,
     ListActivePolicies = (\<lambda>t. Inr [])\<rparr>"

definition c3_broken :: Store where
  "c3_broken = c3_store\<lparr>ListRelationSubjects := (\<lambda>t ot oi r. Inl (Opaque ''i/o timeout''))\<rparr>"

definition rebac_req :: CheckRequest where
  "rebac_req = \<lparr>req_Subject = \<lparr>sub_Kind = ''user'', sub_ID = ''bob'', sub_Attributes = Map.empty\<rparr>,
             req_Action = \<lparr>act_Name = ''viewer''\<rparr>,
             req_Resource = \<lparr>res_Type = ''document'', res_ID = ''d1'', res_Attributes = Map.empty\<rparr>,
             req_Context = Map.empty\<rparr>"

definition c3_scope :: tenantScope where
  "c3_scope = \<lparr>ts_appID = ''app'', ts_tenantID = ''t1''\<rparr>"

definition c3_engine :: Engine where
  "c3_engine = \<lparr>e_store = c3_store, e_evaluator = DefaultEvaluator (\<lambda>op a b. Inr True),
                e_graphWalker = Some (Walk 1), e_plugins = None, e_config = DefaultConfig\<rparr>"

definition c3_clock :: Clock where
  "c3_clock = \<lparr>t_start = 100, t_get = 101, t_since = 150, t_evict = 151, t_store = 152\<rparr>"

definition c3_world :: World where
  "c3_world = \<lparr>w_heap = [], w_cache = None, w_trace = []\<rparr>"



text \<open>
  Alice holds two global roles in tenant \<open>t1\<close>: one through an assignment that expired at
  1000, one through an assignment without expiry. The clock reads 5000.
\<close>

definition c5_expired :: Assignment where
  "c5_expired = \<lparr>asg_ID = \<lparr>inner = \<lparr>tid_prefix = ''asgn'',
                                       tid_suffix = ''01h2xcejqtf2nbrexx3vqjhp41''\<rparr>, valid = True\<rparr>,
     asg_TenantID = ''t1'',
     asg_RoleID = \<lparr>inner = \<lparr>tid_prefix = ''role'', tid_suffix = ''01h2xcejqtf2nbrexx3vqjhp51''\<rparr>,
                   valid = True\<rparr>,
     asg_SubjectKind = ''user'', asg_SubjectID = ''alice'', asg_ResourceType = [],
     asg_ResourceID = [], asg_ExpiresAt = Some 1000\<rparr>"

definition c5_live :: Assignment where
  "c5_live = \<lparr>asg_ID = \<lparr>inner = \<lparr>tid_prefix = ''asgn'',
                                    tid_suffix = ''01h2xcejqtf2nbrexx3vqjhp42''\<rparr>, valid = True\<rparr>,
     asg_TenantID = ''t1'',
     asg_RoleID = \<lparr>inner = \<lparr>tid_prefix = ''role'', tid_suffix = ''01h2xcejqtf2nbrexx3vqjhp52''\<rparr>,
                   valid = True\<rparr>,
     asg_SubjectKind = ''user'', asg_SubjectID = ''alice'', asg_ResourceType = [],
     asg_ResourceID = [], asg_ExpiresAt = None\<rparr>"

definition c5_store :: MemStore where
  "c5_store = mem_CreateAssignment
                (mem_CreateAssignment \<lparr>assignments = [], relations = []\<rparr> c5_expired) c5_live"

definition c9_suffix :: string where
  "c9_suffix = ''01h2xcejqtf2nbrexx3vqjhp41''"

definition c9_role :: ID where
  "c9_role = \<lparr>inner = \<lparr>tid_prefix = ''role'', tid_suffix = c9_suffix\<rparr>, valid = True\<rparr>"

text \<open>
  An engine with one plugin on both check hooks, all three models enabled and a store whose
  every call fails; its cache holds an allow for the request until 1000, and the check
  starts at 500.
\<close>

definition c10_store :: Store where
  "c10_store = \<lparr>ListRolesForSubject = (\<lambda>t k i. Inl (Opaque ''store down'')),
     ListRolesForSubjectOnResource = (\<lambda>t k i rt ri. Inl (Opaque ''store down'')),
     GetRole = (\<lambda>r. Inl (Opaque ''store down'')),
     ListRolePermissions = (\<lambda>r. Inl (Opaque ''store down'')),
     GetPermission = (\<lambda>p. Inl (Opaque ''store down'')),
     CheckDirectRelation = (\<lambda>t ot oi r st si. Inl (Opaque ''store down'')),
     ListRelationSubjects = (\<lambda>t ot oi r. Inl (Opaque ''store down'')),
     ListActivePolicies = (\<lambda>t. Inl (Opaque ''store down''))\<rparr>"

definition c10_engine :: Engine where
  "c10_engine = \<lparr>e_store = c10_store, e_evaluator = DefaultEvaluator (\<lambda>op a b. Inr True),
                 e_graphWalker = Some (DefaultGraphWalker 10),
                 e_plugins = Some \<lparr>beforeCheck = [''audit''], afterCheck = [''audit'']\<rparr>,
                 e_config = DefaultConfig\<rparr>"

definition c10_req :: CheckRequest where
  "c10_req = \<lparr>req_Subject = \<lparr>sub_Kind = ''user'', sub_ID = ''u1'', sub_Attributes = Map.empty\<rparr>,
              req_Action = \<lparr>act_Name = ''read''\<rparr>,
              req_Resource = \<lparr>res_Type = ''document'', res_ID = ''d1'', res_Attributes = Map.empty\<rparr>,
              req_Context = Map.empty\<rparr>"

definition c10_cache :: Memory where
  "c10_cache = \<lparr>entries = [(''t1:user:u1:read:document:d1'', \<lparr>e_result = 0, e_expiresAt = 1000\<rparr>)],
                ttl = 1000, maxSize = 10000\<rparr>"

definition c10_world :: World where
  "c10_world = \<lparr>w_heap = [zeroResult\<lparr>Allowed := True, Decision := DecisionAllow, EvalTimeNs := 7\<rparr>],
                w_cache = Some c10_cache, w_trace = []\<rparr>"

definition c10_clock :: Clock where
  "c10_clock = \<lparr>t_start = 500, t_get = 501, t_since = 540, t_evict = 541, t_store = 542\<rparr>"

definition c10_ctx :: Context where
  "c10_ctx = \<lparr>ctx_forgeScope = None, ctx_appID = Some ''app'', ctx_tenantID = Some ''t1''\<rparr>"


section \<open>Properties of the matcher\<close>

lemma HasSuffix_iff: "HasSuffix s suf \<longleftrightarrow> (\<exists>q. s = q @ suf)"
proof
  assume h: "HasSuffix s suf"
  then have "s = take (length s - length suf) s @ suf"
    by (metis HasSuffix_def append_take_drop_id)
  then show "\<exists>q. s = q @ suf" ..
next
  assume "\<exists>q. s = q @ suf"
  then show "HasSuffix s suf" by (auto simp: HasSuffix_def)
qed

lemma HasPrefix_iff: "HasPrefix s p \<longleftrightarrow> (\<exists>r. s = p @ r)"
proof
  assume h: "HasPrefix s p"
  then have "s = p @ drop (length p) s"
    by (metis HasPrefix_def append_take_drop_id)
  then show "\<exists>r. s = p @ r" ..
next
  assume "\<exists>r. s = p @ r"
  then show "HasPrefix s p" by (auto simp: HasPrefix_def)
qed

lemma TrimSuffix_star: "TrimSuffix (q @ ''*'') ''*'' = q"
  by (simp add: TrimSuffix_def HasSuffix_def)

lemma HasSuffix_colon_star: "HasSuffix p '':*'' \<Longrightarrow> HasSuffix p ''*''"
  by (auto simp: HasSuffix_iff)

lemma HasSuffix_dot_star: "HasSuffix p ''.*'' \<Longrightarrow> HasSuffix p ''*''"
  by (auto simp: HasSuffix_iff)

text \<open>
  C7. \<open>matchGlob pattern v\<close> holds exactly when the pattern is \<open>*\<close>, or equals the value, or
  ends in one of \<open>:*\<close>, \<open>.*\<close>, \<open>*\<close> and the value starts with the pattern without its last
  character (the trailing \<open>*\<close>); \<open>matchPermission\<close> is equality or \<open>matchGlob\<close>.
\<close>

theorem C7_matchGlob_matchPermission:
  "(matchGlob pattern v \<longleftrightarrow>
      pattern = ''*'' \<or> pattern = v \<or>
      ((\<exists>q. pattern = q @ '':*'') \<or> (\<exists>q. pattern = q @ ''.*'') \<or> (\<exists>q. pattern = q @ ''*''))
        \<and> (\<exists>rest. v = butlast pattern @ rest))
   \<and> (matchPermission permName required \<longleftrightarrow>
        permName = required \<or> matchGlob permName required)"
proof -
  have star: "HasSuffix pattern ''*'' \<Longrightarrow> TrimSuffix pattern ''*'' = butlast pattern"
    by (auto simp: HasSuffix_iff TrimSuffix_star)
  have "matchGlob pattern v \<longleftrightarrow>
      pattern = ''*'' \<or> pattern = v \<or>
      ((HasSuffix pattern '':*'' \<or> HasSuffix pattern ''.*'' \<or> HasSuffix pattern ''*'')
        \<and> HasPrefix v (butlast pattern))"
    using star HasSuffix_colon_star[of pattern] HasSuffix_dot_star[of pattern]
    by (auto simp: matchGlob_def)
  then have g: "matchGlob pattern v \<longleftrightarrow>
      pattern = ''*'' \<or> pattern = v \<or>
      ((\<exists>q. pattern = q @ '':*'') \<or> (\<exists>q. pattern = q @ ''.*'') \<or> (\<exists>q. pattern = q @ ''*''))
        \<and> (\<exists>rest. v = butlast pattern @ rest)"
    by (simp only: HasSuffix_iff HasPrefix_iff)
  have p: "matchPermission permName required \<longleftrightarrow>
        permName = required \<or> matchGlob permName required"
    by (simp add: matchPermission_def)
  from g p show ?thesis by blast
qed

section \<open>Properties of the cache\<close>

text \<open>
  C4. \<open>Get\<close> is a hit exactly when the key has an entry and the clock is not past its
  \<open>expiresAt\<close>. When the entry found has expired, \<open>Get\<close> reports a miss and the cache it
  leaves has no entry for the key, every other key keeping its entry; so at any time
  strictly after an entry's expiration \<open>Get\<close> is a miss for that key.
\<close>

theorem C4_cache_get:
  "(fst (Memory_Get m now tenantID req) \<noteq> None \<longleftrightarrow>
      (\<exists>e. map_of (entries m) (cacheKey tenantID req) = Some e \<and> \<not> now > e_expiresAt e))
   \<and> (\<forall>e. map_of (entries m) (cacheKey tenantID req) = Some e \<and> e_expiresAt e < now \<longrightarrow>
          fst (Memory_Get m now tenantID req) = None
        \<and> map_of (entries (snd (Memory_Get m now tenantID req))) (cacheKey tenantID req) = None
        \<and> (\<forall>k. k \<noteq> cacheKey tenantID req \<longrightarrow>
              map_of (entries (snd (Memory_Get m now tenantID req))) k = map_of (entries m) k))"
  by (auto simp: Memory_Get_def Let_def delete_conv split: option.splits)

theorem C4_cache_get_witness:
  "fst (Memory_Get c4_cache 1000 ''t1'' c4_req) = Some 0
   \<and> fst (Memory_Get c4_cache 5000 ''t1'' c4_req) = None
   \<and> entries (snd (Memory_Get c4_cache 5000 ''t1'' c4_req)) = []"
proof -
  have k: "cacheKey ''t1'' c4_req = ''t1:user:u1:read:document:d1''"
    by (simp add: cacheKey_def c4_req_def)
  have e: "map_of (entries c4_cache) (cacheKey ''t1'' c4_req)
             = Some \<lparr>e_result = 0, e_expiresAt = 1000\<rparr>"
    by (simp add: k c4_cache_def)
  have hit: "fst (Memory_Get c4_cache 1000 ''t1'' c4_req) \<noteq> None"
    using C4_cache_get [of c4_cache 1000 "''t1''" c4_req] e by simp
  have miss: "fst (Memory_Get c4_cache 5000 ''t1'' c4_req) = None"
    using C4_cache_get [of c4_cache 5000 "''t1''" c4_req] e by simp
  have v: "fst (Memory_Get c4_cache 1000 ''t1'' c4_req) = Some 0"
    using hit by (simp add: Memory_Get_def e)
  have d: "entries (snd (Memory_Get c4_cache 5000 ''t1'' c4_req)) = []"
    by (simp add: Memory_Get_def e) (simp add: k c4_cache_def AList.delete_eq)
  from v miss d show ?thesis by simp
qed

section \<open>Properties of the decision merger and the ABAC evaluator\<close>

lemma firstAllowed_find: "firstAllowed rs = find Allowed (List.map_filter id rs)"
  by (induction rs rule: firstAllowed.induct) (simp_all add: List.map_filter_simps)

lemma firstWithReason_find:
  "firstWithReason rs = find (\<lambda>r. Reason r \<noteq> []) (List.map_filter id rs)"
  by (induction rs rule: firstWithReason.induct) (simp_all add: List.map_filter_simps)

lemma explicitDeny_Some:
  "explicitDeny abac = Some a \<longleftrightarrow> abac = Some a \<and> Decision a = DecisionDenyExplicit"
  by (auto simp: explicitDeny_def split: option.splits if_splits)

lemma explicitDeny_None:
  "explicitDeny abac = None \<longleftrightarrow> \<not> (\<exists>a. abac = Some a \<and> Decision a = DecisionDenyExplicit)"
  by (auto simp: explicitDeny_def split: option.splits if_splits)

lemma denyResult_fields:
  "Decision (denyResult pol) = DecisionDenyExplicit" "\<not> Allowed (denyResult pol)"
  by (simp_all add: denyResult_def)

text \<open>
  Once \<open>bestDeny\<close> is set it stays set, and the first matching deny policy sets it: a run
  of the loop that ends without error over a list holding a matching deny policy, or
  started with a \<open>bestDeny\<close>, ends with a \<open>bestDeny\<close> that is an explicit deny.
\<close>

lemma policiesLoop_deny:
  "policiesLoop ec req ps bd ba = Inr (bd', ba') \<Longrightarrow>
   (\<exists>d. bd = Some d) \<or> (\<exists>pol \<in> set ps. policyMatches ec pol req \<and> pol_Effect pol = EffectDeny) \<Longrightarrow>
   (\<And>d. bd = Some d \<Longrightarrow> Decision d = DecisionDenyExplicit \<and> \<not> Allowed d) \<Longrightarrow>
   \<exists>d. bd' = Some d \<and> Decision d = DecisionDenyExplicit \<and> \<not> Allowed d"
proof (induction ps arbitrary: bd ba)
  case Nil
  then show ?case by auto
next
  case (Cons pol ps)
  show ?case
  proof (cases "policyMatches ec pol req")
    case False
    then have step: "policiesLoop ec req (pol # ps) bd ba = policiesLoop ec req ps bd ba"
      using Cons.prems(1) by (auto simp: policyMatches_def split: sum.splits if_splits)
    from False Cons.prems(2)
    have "(\<exists>d. bd = Some d) \<or> (\<exists>p \<in> set ps. policyMatches ec p req \<and> pol_Effect p = EffectDeny)"
      by auto
    with Cons.IH [of bd ba] Cons.prems(1,3) step show ?thesis by metis
  next
    case True
    then have cm: "evaluateConditions ec (pol_Conditions pol) req = Inr True"
      and act: "pol_IsActive pol" "matchesSubject pol req" "matchesAction pol req"
               "matchesResource pol req"
      by (simp_all add: policyMatches_def)
    show ?thesis
    proof (cases "pol_Effect pol = EffectDeny")
      case True
      let ?bd = "if bd = None then Some (denyResult pol) else bd"
      have step: "policiesLoop ec req (pol # ps) bd ba = policiesLoop ec req ps ?bd ba"
        using cm act True by simp
      have some: "\<exists>d. ?bd = Some d" by auto
      have ok: "\<And>d. ?bd = Some d \<Longrightarrow> Decision d = DecisionDenyExplicit \<and> \<not> Allowed d"
        using Cons.prems(3) denyResult_fields by (auto split: if_splits)
      from Cons.IH [of ?bd ba] step Cons.prems(1) some ok show ?thesis by metis
    next
      case False
      let ?ba = "if ba = None then Some (allowResult pol) else ba"
      have step: "policiesLoop ec req (pol # ps) bd ba = policiesLoop ec req ps bd ?ba"
        using cm act False by simp
      from False Cons.prems(2)
      have "(\<exists>d. bd = Some d) \<or> (\<exists>p \<in> set ps. policyMatches ec p req \<and> pol_Effect p = EffectDeny)"
        by auto
      with Cons.IH [of bd ?ba] Cons.prems(1,3) step show ?thesis by metis
    qed
  qed
qed

lemma Evaluate_deny:
  assumes ev: "Evaluate ec policies req = Inr abac"
    and m: "\<exists>pol \<in> set policies. policyMatches ec pol req \<and> pol_Effect pol = EffectDeny"
  shows "\<exists>d. abac = Some d \<and> Decision d = DecisionDenyExplicit \<and> \<not> Allowed d"
proof -
  from m have ne: "policies \<noteq> []" by auto
  from ev ne obtain bd ba where loop: "policiesLoop ec req policies None None = Inr (bd, ba)"
    by (auto simp: Evaluate_def split: sum.splits)
  from policiesLoop_deny [OF loop] m
  obtain d where d: "bd = Some d" "Decision d = DecisionDenyExplicit" "\<not> Allowed d" by auto
  from ev ne loop d have "abac = Some d" by (simp add: Evaluate_def)
  with d show ?thesis by simp
qed

text \<open>
  C1. \<open>mergeDecisions\<close> returns the ABAC result when that result's decision is the explicit
  deny; otherwise the first of the RBAC, ReBAC, ABAC results present that is allowed;
  otherwise the first with a non-empty reason; otherwise the default deny with decision
  \<open>deny_default\<close> and reason "no matching allow rule". Consequently, when \<open>Evaluate\<close> returns
  a result over policies of which at least one deny policy matches the request, the merged
  decision is the explicit deny and is not allowed, whatever RBAC and ReBAC returned.
\<close>

theorem C1_mergeDecisions:
  "mergeDecisions rbac rebac abac =
     (if \<exists>a. abac = Some a \<and> Decision a = DecisionDenyExplicit then the abac
      else case find Allowed (List.map_filter id [rbac, rebac, abac]) of
             Some r \<Rightarrow> r
           | None \<Rightarrow>
               (case find (\<lambda>r. Reason r \<noteq> []) (List.map_filter id [rbac, rebac, abac]) of
                  Some r \<Rightarrow> r
                | None \<Rightarrow> \<lparr>Allowed = False, Decision = ''deny_default'',
                            Reason = ''no matching allow rule'', MatchedBy = [],
                            EvalTimeNs = 0\<rparr>))
   \<and> (Evaluate ec policies req = Inr abac \<and>
        (\<exists>pol \<in> set policies. policyMatches ec pol req \<and> pol_Effect pol = EffectDeny) \<longrightarrow>
        \<not> Allowed (mergeDecisions rbac rebac abac) \<and>
        Decision (mergeDecisions rbac rebac abac) = DecisionDenyExplicit \<and>
        Some (mergeDecisions rbac rebac abac) = abac)"
proof (intro conjI impI)
  show "mergeDecisions rbac rebac abac =
     (if \<exists>a. abac = Some a \<and> Decision a = DecisionDenyExplicit then the abac
      else case find Allowed (List.map_filter id [rbac, rebac, abac]) of
             Some r \<Rightarrow> r
           | None \<Rightarrow>
               (case find (\<lambda>r. Reason r \<noteq> []) (List.map_filter id [rbac, rebac, abac]) of
                  Some r \<Rightarrow> r
                | None \<Rightarrow> \<lparr>Allowed = False, Decision = ''deny_default'',
                            Reason = ''no matching allow rule'', MatchedBy = [],
                            EvalTimeNs = 0\<rparr>))"
  proof (cases "\<exists>a. abac = Some a \<and> Decision a = DecisionDenyExplicit")
    case True
    then obtain a where a: "abac = Some a" "Decision a = DecisionDenyExplicit" by blast
    then have "explicitDeny abac = Some a" by (simp add: explicitDeny_Some)
    with a True show ?thesis by (simp add: mergeDecisions_def)
  next
    case False
    then have "explicitDeny abac = None" by (simp add: explicitDeny_None)
    with False show ?thesis
      by (simp only: mergeDecisions_def firstAllowed_find firstWithReason_find if_False
            option.case zeroResult_def)
         (simp split: option.splits)
  qed
next
  assume h: "Evaluate ec policies req = Inr abac \<and>
      (\<exists>pol \<in> set policies. policyMatches ec pol req \<and> pol_Effect pol = EffectDeny)"
  then obtain d where d: "abac = Some d" "Decision d = DecisionDenyExplicit" "\<not> Allowed d"
    using Evaluate_deny by blast
  then have m: "mergeDecisions rbac rebac abac = d"
    by (simp add: mergeDecisions_def explicitDeny_def)
  from m d show "\<not> Allowed (mergeDecisions rbac rebac abac)" by simp
  from m d show "Decision (mergeDecisions rbac rebac abac) = DecisionDenyExplicit" by simp
  from m d show "Some (mergeDecisions rbac rebac abac) = abac" by simp
qed

lemma c1_matches: "policyMatches c1_ec c1_deny_net c1_req"
  by (simp add: policyMatches_def c1_deny_net_def c1_req_def c1_ec_def matchesSubject_def
        matchesAction_def matchesResource_def resolveField_def lookupAttr_def)

lemma c1_evaluate: "Evaluate c1_ec [c1_allow_all, c1_deny_net] c1_req = Inr (Some (denyResult c1_deny_net))"
  by (simp add: Evaluate_def c1_deny_net_def c1_allow_all_def c1_req_def c1_ec_def matchesSubject_def
        matchesAction_def matchesResource_def resolveField_def lookupAttr_def)

theorem C1_mergeDecisions_witness:
  "\<not> Allowed (mergeDecisions (Some c1_rbac) None (Some (denyResult c1_deny_net)))
   \<and> mergeDecisions (Some c1_rbac) None (Some (denyResult c1_deny_net)) = denyResult c1_deny_net
   \<and> mergeDecisions (Some c1_rbac) None None = c1_rbac"
proof -
  have ex: "\<exists>pol \<in> set [c1_allow_all, c1_deny_net].
              policyMatches c1_ec pol c1_req \<and> pol_Effect pol = EffectDeny"
    using c1_matches by (simp add: c1_deny_net_def)
  have a: "\<not> Allowed (mergeDecisions (Some c1_rbac) None (Some (denyResult c1_deny_net)))
        \<and> Some (mergeDecisions (Some c1_rbac) None (Some (denyResult c1_deny_net)))
            = Some (denyResult c1_deny_net)"
    using C1_mergeDecisions [of "Some c1_rbac" None "Some (denyResult c1_deny_net)"
            c1_ec "[c1_allow_all, c1_deny_net]" c1_req] c1_evaluate ex
    by blast
  have b: "mergeDecisions (Some c1_rbac) None None = c1_rbac"
    using C1_mergeDecisions [of "Some c1_rbac" None None c1_ec "[]" c1_req]
    by (simp add: List.map_filter_simps c1_rbac_def zeroResult_def)
  from a have a1: "\<not> Allowed (mergeDecisions (Some c1_rbac) None (Some (denyResult c1_deny_net)))"
    by (rule conjunct1)
  from a have a2: "mergeDecisions (Some c1_rbac) None (Some (denyResult c1_deny_net))
                     = denyResult c1_deny_net"
    by (simp only: option.inject)
  from a1 a2 b show ?thesis by (intro conjI)
qed

text \<open>
  C6. The subject filter of a policy passes a request when the policy has no matchers or
  some matcher agrees with the request on its non-empty kind and on its non-empty id. The
  \<open>Role\<close> field of a matcher is never read by \<open>matchesSubject\<close>: the policy below, whose
  only matcher names the role \<open>admin\<close> and nothing else, passes the request of a subject
  whose only role attribute is \<open>viewer\<close>.
\<close>

theorem C6_role_matcher_ignored:
  "matchesSubject c6_policy c6_request
   \<and> Evaluate ec [c6_policy] c6_request = Inr (Some (allowResult c6_policy))"
  by (simp add: Evaluate_def matchesSubject_def matchesAction_def matchesResource_def
        c6_policy_def c6_request_def)

section \<open>Properties of the RBAC evaluator\<close>








section \<open>Properties of the graph walker and the ReBAC evaluator\<close>

lemma Join_snoc_nonempty: "x \<noteq> [] \<Longrightarrow> Join (xs @ [x]) sep \<noteq> []"
proof (induction xs)
  case Nil
  then show ?case by simp
next
  case (Cons a xs)
  obtain y ys where "xs @ [x] = y # ys" by (cases "xs @ [x]") auto
  with Cons.IH [OF Cons.prems] show ?case by simp
qed

lemma scanTuples_path_nonempty: "scanTuples tt ti node ts queue = Inl p \<Longrightarrow> p \<noteq> []"
proof (induction ts arbitrary: queue)
  case Nil
  then show ?case by simp
next
  case (Cons t ts)
  show ?case
  proof (cases "tup_SubjectType t = tt \<and> tup_SubjectID t = ti")
    case True
    with Cons.prems have "p = Join (wn_path node @ [tup_SubjectType t @ '':'' @ tup_SubjectID t]) '' -> ''"
      by simp
    then show ?thesis using Join_snoc_nonempty by simp
  next
    case False
    with Cons show ?thesis by (auto split: if_splits)
  qed
qed

text \<open>
  The results \<open>walkLoop\<close> can end in: a match with its path, the drained queue, the depth
  cap, or the wrapped error of a failing \<open>ListRelationSubjects\<close>.
\<close>

lemma walkLoop_outcomes:
  "(\<exists>p. p \<noteq> [] \<and> fst (walkLoop lrs maxDepth tenant tt ti queue visited calls) = (True, p, None))
   \<or> fst (walkLoop lrs maxDepth tenant tt ti queue visited calls) = (False, [], None)
   \<or> fst (walkLoop lrs maxDepth tenant tt ti queue visited calls)
        = (False, [], Some ErrGraphDepthExceeded)
   \<or> (\<exists>ot oi r err. lrs tenant ot oi r = Inl err \<and>
        fst (walkLoop lrs maxDepth tenant tt ti queue visited calls)
          = (False, [], Some (Wrap (''list subjects for '' @ visitKeyOf ot oi r @ '': '') err)))"
proof (induction lrs maxDepth tenant tt ti queue visited calls rule: walkLoop.induct)
  case (1 lrs maxDepth tenant tt ti visited calls)
  show ?case by simp
next
  case (2 lrs maxDepth tenant tt ti node queue visited calls)
  show ?case
  proof (cases "wn_depth node > maxDepth")
    case True
    then show ?thesis by simp
  next
    case deep: False
    show ?thesis
    proof (cases "visitKeyOf (wn_objectType node) (wn_objectID node) (wn_relation node) \<in> visited")
      case True
      with deep "2.IH"(1) show ?thesis by simp
    next
      case fresh: False
      show ?thesis
      proof (cases "lrs tenant (wn_objectType node) (wn_objectID node) (wn_relation node)")
        case (Inl err)
        with deep fresh show ?thesis by auto
      next
        case (Inr tuples)
        show ?thesis
        proof (cases "scanTuples tt ti node tuples queue")
          case (Inl p)
          then have "p \<noteq> []" by (rule scanTuples_path_nonempty)
          with deep fresh Inr Inl show ?thesis by simp
        next
          case inner: (Inr queue')
          from "2.IH"(2) [OF deep fresh Inr inner] deep fresh Inr inner
          show ?thesis by simp
        qed
      qed
    qed
  qed
qed


lemma Walk_outcomes:
  "(\<exists>p. p \<noteq> [] \<and> Walk maxDepth st tenant req = (True, p, None))
   \<or> Walk maxDepth st tenant req = (False, [], None)
   \<or> Walk maxDepth st tenant req = (False, [], Some ErrGraphDepthExceeded)
   \<or> (\<exists>ot oi r err. ListRelationSubjects st tenant ot oi r = Inl err \<and>
        Walk maxDepth st tenant req
          = (False, [], Some (Wrap (''list subjects for '' @ visitKeyOf ot oi r @ '': '') err)))"
  unfolding Walk_def WalkTrace_def by (rule walkLoop_outcomes)

lemma Walk_error_not_allowed: "Walk maxDepth st tenant req = (allowed, p, Some e) \<Longrightarrow> \<not> allowed"
  using Walk_outcomes [of maxDepth st tenant req] by auto

text \<open>
  C3. When the direct check finds nothing and the breadth-first walker returns an error that
  is \<open>ErrGraphDepthExceeded\<close> (as \<open>errors.Is\<close> tests it), \<open>evaluateReBAC\<close> returns no error
  but the deny with decision \<open>deny_relation\<close> and reason "no relation found", and \<open>Check\<close>
  goes on to its ABAC step with that result; every walker error that is not
  \<open>ErrGraphDepthExceeded\<close> is returned by \<open>evaluateReBAC\<close> as it is.
\<close>

theorem C3_depth_exceeded_is_soft:
  assumes direct: "CheckDirectRelation st (ts_tenantID scope) (res_Type (req_Resource req))
             (res_ID (req_Resource req)) (act_Name (req_Action req))
             (sub_Kind (req_Subject req)) (sub_ID (req_Subject req)) = Inr False"
    and walk: "Walk maxDepth st (ts_tenantID scope) req = (allowed, p, Some e)"
  shows "(errors_Is e ErrGraphDepthExceeded \<longrightarrow>
            evaluateReBAC st (Some (Walk maxDepth)) scope req
              = Inr \<lparr>Allowed = False, Decision = ''deny_relation'', Reason = ''no relation found'',
                      MatchedBy = [], EvalTimeNs = 0\<rparr>
          \<and> (e_store eng = st \<and> e_graphWalker eng = Some (Walk maxDepth) \<and>
             rebacEnabled (e_config eng) \<longrightarrow>
               stepReBAC eng clk scope req rbacResult w
                 = stepABAC eng clk scope req rbacResult
                     (Some \<lparr>Allowed = False, Decision = ''deny_relation'',
                            Reason = ''no relation found'', MatchedBy = [], EvalTimeNs = 0\<rparr>)
                     (logEvent RunReBAC w)))
       \<and> (\<not> errors_Is e ErrGraphDepthExceeded \<longrightarrow>
            evaluateReBAC st (Some (Walk maxDepth)) scope req = Inl e)"
proof -
  from walk have na: "\<not> allowed" by (rule Walk_error_not_allowed)
  have soft: "evaluateReBAC st (Some (Walk maxDepth)) scope req
              = Inr \<lparr>Allowed = False, Decision = ''deny_relation'', Reason = ''no relation found'',
                      MatchedBy = [], EvalTimeNs = 0\<rparr>"
    if "errors_Is e ErrGraphDepthExceeded"
    using that direct walk na by (simp add: evaluateReBAC_def rebacDeny_def zeroResult_def)
  have hard: "evaluateReBAC st (Some (Walk maxDepth)) scope req = Inl e"
    if "\<not> errors_Is e ErrGraphDepthExceeded"
    using that direct walk by (simp add: evaluateReBAC_def)
  from soft hard show ?thesis by (auto simp: stepReBAC_def)
qed


lemma c3_direct:
  "CheckDirectRelation c3_store (ts_tenantID c3_scope) (res_Type (req_Resource rebac_req))
     (res_ID (req_Resource rebac_req)) (act_Name (req_Action rebac_req))
     (sub_Kind (req_Subject rebac_req)) (sub_ID (req_Subject rebac_req)) = Inr False"
  by (simp add: c3_store_def c3_mem_def mkTuple_def c3_scope_def rebac_req_def
        mem_CheckDirectRelation_def)

lemma c3_direct_broken:
  "CheckDirectRelation c3_broken (ts_tenantID c3_scope) (res_Type (req_Resource rebac_req))
     (res_ID (req_Resource rebac_req)) (act_Name (req_Action rebac_req))
     (sub_Kind (req_Subject rebac_req)) (sub_ID (req_Subject rebac_req)) = Inr False"
  by (simp add: c3_broken_def c3_store_def c3_mem_def mkTuple_def c3_scope_def rebac_req_def
        mem_CheckDirectRelation_def)

lemma c3_walk:
  "Walk 1 c3_store (ts_tenantID c3_scope) rebac_req = (False, [], Some ErrGraphDepthExceeded)"
  by (simp add: Walk_def WalkTrace_def c3_store_def c3_mem_def mkTuple_def c3_scope_def
        rebac_req_def mem_ListRelationSubjects_def visitKeyOf_def)

lemma c3_walk_broken:
  "Walk 1 c3_broken (ts_tenantID c3_scope) rebac_req
     = (False, [], Some (Wrap ''list subjects for document:d1#viewer: '' (Opaque ''i/o timeout'')))"
  by (simp add: Walk_def WalkTrace_def c3_broken_def c3_store_def c3_scope_def
        rebac_req_def visitKeyOf_def)

theorem C3_depth_exceeded_is_soft_witness:
  "evaluateReBAC c3_store (Some (Walk 1)) c3_scope rebac_req
     = Inr \<lparr>Allowed = False, Decision = ''deny_relation'', Reason = ''no relation found'',
            MatchedBy = [], EvalTimeNs = 0\<rparr>
   \<and> stepReBAC c3_engine c3_clock c3_scope rebac_req None c3_world
       = stepABAC c3_engine c3_clock c3_scope rebac_req None
           (Some \<lparr>Allowed = False, Decision = ''deny_relation'', Reason = ''no relation found'',
                  MatchedBy = [], EvalTimeNs = 0\<rparr>)
           (logEvent RunReBAC c3_world)
   \<and> evaluateReBAC c3_broken (Some (Walk 1)) c3_scope rebac_req
       = Inl (Wrap ''list subjects for document:d1#viewer: '' (Opaque ''i/o timeout''))"
proof -
  have eng: "e_store c3_engine = c3_store \<and> e_graphWalker c3_engine = Some (Walk 1) \<and>
             rebacEnabled (e_config c3_engine)"
    by (simp add: c3_engine_def DefaultConfig_def rebacEnabled_def)
  have is1: "errors_Is ErrGraphDepthExceeded ErrGraphDepthExceeded" by simp
  have is2: "\<not> errors_Is (Wrap ''list subjects for document:d1#viewer: '' (Opaque ''i/o timeout''))
               ErrGraphDepthExceeded"
    by simp
  from C3_depth_exceeded_is_soft [OF c3_direct c3_walk, of c3_engine c3_clock None c3_world]
    is1 eng
  have a: "evaluateReBAC c3_store (Some (Walk 1)) c3_scope rebac_req
     = Inr \<lparr>Allowed = False, Decision = ''deny_relation'', Reason = ''no relation found'',
            MatchedBy = [], EvalTimeNs = 0\<rparr>"
    and b: "stepReBAC c3_engine c3_clock c3_scope rebac_req None c3_world
       = stepABAC c3_engine c3_clock c3_scope rebac_req None
           (Some \<lparr>Allowed = False, Decision = ''deny_relation'', Reason = ''no relation found'',
                  MatchedBy = [], EvalTimeNs = 0\<rparr>)
           (logEvent RunReBAC c3_world)"
    by blast+
  from C3_depth_exceeded_is_soft [OF c3_direct_broken c3_walk_broken] is2
  have c: "evaluateReBAC c3_broken (Some (Walk 1)) c3_scope rebac_req
       = Inl (Wrap ''list subjects for document:d1#viewer: '' (Opaque ''i/o timeout''))"
    by blast
  from a b c show ?thesis by (intro conjI)
qed



section \<open>Properties of the assignment store\<close>

text \<open>
  C5, as the code has it. \<open>ListRolesForSubject\<close> returns the role of every global
  assignment of the subject in the tenant, whether or not the assignment has expired.
  \<open>DeleteExpiredAssignments\<close> at \<open>now\<close> removes exactly the assignments whose \<open>ExpiresAt\<close> is
  set and before \<open>now\<close>; in the store it leaves, every role \<open>ListRolesForSubject\<close> returns
  is the role of a global assignment of the subject that is not expired at \<open>now\<close>.
\<close>

theorem C5_expiry_enforced_by_delete:
  "(\<forall>a \<in> snd ` set (assignments s).
       asg_TenantID a = tenantID \<and> asg_SubjectKind a = subjectKind \<and>
       asg_SubjectID a = subjectID \<and> asg_ResourceType a = [] \<longrightarrow>
       (\<exists>roles. mem_ListRolesForSubject s tenantID subjectKind subjectID = Inr roles \<and>
                asg_RoleID a \<in> set roles))
   \<and> set (assignments (snd (mem_DeleteExpiredAssignments s now)))
        = {ka \<in> set (assignments s). \<not> expiredAt now (snd ka)}
   \<and> (\<forall>roles. mem_ListRolesForSubject (snd (mem_DeleteExpiredAssignments s now))
                  tenantID subjectKind subjectID = Inr roles \<longrightarrow>
        (\<forall>r \<in> set roles. \<exists>a \<in> snd ` set (assignments s).
            asg_RoleID a = r \<and> \<not> expiredAt now a \<and>
            asg_TenantID a = tenantID \<and> asg_SubjectKind a = subjectKind \<and>
            asg_SubjectID a = subjectID \<and> asg_ResourceType a = []))"
proof (intro conjI)
  show "\<forall>a \<in> snd ` set (assignments s).
       asg_TenantID a = tenantID \<and> asg_SubjectKind a = subjectKind \<and>
       asg_SubjectID a = subjectID \<and> asg_ResourceType a = [] \<longrightarrow>
       (\<exists>roles. mem_ListRolesForSubject s tenantID subjectKind subjectID = Inr roles \<and>
                asg_RoleID a \<in> set roles)"
    by (force simp: mem_ListRolesForSubject_def)
  show "set (assignments (snd (mem_DeleteExpiredAssignments s now)))
        = {ka \<in> set (assignments s). \<not> expiredAt now (snd ka)}"
    by (auto simp: mem_DeleteExpiredAssignments_def)
  show "\<forall>roles. mem_ListRolesForSubject (snd (mem_DeleteExpiredAssignments s now))
                  tenantID subjectKind subjectID = Inr roles \<longrightarrow>
        (\<forall>r \<in> set roles. \<exists>a \<in> snd ` set (assignments s).
            asg_RoleID a = r \<and> \<not> expiredAt now a \<and>
            asg_TenantID a = tenantID \<and> asg_SubjectKind a = subjectKind \<and>
            asg_SubjectID a = subjectID \<and> asg_ResourceType a = [])"
    by (force simp: mem_ListRolesForSubject_def mem_DeleteExpiredAssignments_def)
qed

lemma c5_store_assignments:
  "assignments c5_store
     = [(''asgn_01h2xcejqtf2nbrexx3vqjhp41'', c5_expired),
        (''asgn_01h2xcejqtf2nbrexx3vqjhp42'', c5_live)]"
  by (simp add: c5_store_def mem_CreateAssignment_def c5_expired_def c5_live_def String_def
        typeid_String_def)

text \<open>
  At 5000 the store still holds alice's assignment that expired at 1000, no
  \<open>DeleteExpiredAssignments\<close> having run, and \<open>ListRolesForSubject\<close> returns its role.
\<close>

theorem C5_expired_assignment_listed:
  "expiredAt 5000 c5_expired
   \<and> c5_expired \<in> snd ` set (assignments c5_store)
   \<and> mem_ListRolesForSubject c5_store ''t1'' ''user'' ''alice''
       = Inr [asg_RoleID c5_expired, asg_RoleID c5_live]"
  by (simp add: c5_store_assignments mem_ListRolesForSubject_def expiredAt_def)
     (simp add: c5_expired_def c5_live_def)

theorem C5_expiry_enforced_by_delete_witness:
  "(\<exists>roles. mem_ListRolesForSubject c5_store ''t1'' ''user'' ''alice'' = Inr roles \<and>
             asg_RoleID c5_expired \<in> set roles)
   \<and> mem_ListRolesForSubject (snd (mem_DeleteExpiredAssignments c5_store 5000))
        ''t1'' ''user'' ''alice'' = Inr [asg_RoleID c5_live]
   \<and> (\<exists>a. a \<in> snd ` set (assignments c5_store) \<and>
         asg_RoleID a = asg_RoleID c5_live \<and> \<not> expiredAt 5000 a)"
proof -
  have mem: "c5_expired \<in> snd ` set (assignments c5_store)"
    by (simp add: c5_store_assignments)
  have glob: "asg_TenantID c5_expired = ''t1'' \<and> asg_SubjectKind c5_expired = ''user'' \<and>
              asg_SubjectID c5_expired = ''alice'' \<and> asg_ResourceType c5_expired = []"
    by (simp add: c5_expired_def)
  have after: "mem_ListRolesForSubject (snd (mem_DeleteExpiredAssignments c5_store 5000))
        ''t1'' ''user'' ''alice'' = Inr [asg_RoleID c5_live]"
    by (simp add: mem_DeleteExpiredAssignments_def c5_store_assignments
          mem_ListRolesForSubject_def expiredAt_def)
       (simp add: c5_expired_def c5_live_def)
  note inst = C5_expiry_enforced_by_delete [of c5_store "''t1''" "''user''" "''alice''" 5000]
  from inst mem glob
  have a: "\<exists>roles. mem_ListRolesForSubject c5_store ''t1'' ''user'' ''alice'' = Inr roles \<and>
             asg_RoleID c5_expired \<in> set roles"
    by blast
  from inst after
  have "\<forall>r \<in> set [asg_RoleID c5_live]. \<exists>a \<in> snd ` set (assignments c5_store).
         asg_RoleID a = r \<and> \<not> expiredAt 5000 a"
    by blast
  then have c: "\<exists>a. a \<in> snd ` set (assignments c5_store) \<and>
         asg_RoleID a = asg_RoleID c5_live \<and> \<not> expiredAt 5000 a"
    by auto
  from a after c show ?thesis by (intro conjI)
qed

section \<open>Properties of the identifiers\<close>

lemma validSuffix_no_underscore: "validSuffix suf \<Longrightarrow> CHR ''_'' \<notin> set suf"
  by (auto simp: validSuffix_def list_all_iff)

lemma typeid_Parse_String:
  assumes p: "validPrefix p" "p \<noteq> []" and s: "validSuffix suf"
  shows "typeid_Parse (typeid_String \<lparr>tid_prefix = p, tid_suffix = suf\<rparr>)
           = Inr \<lparr>tid_prefix = p, tid_suffix = suf\<rparr>"
proof -
  have nu: "\<And>c. c \<in> set (rev suf) \<Longrightarrow> c \<noteq> CHR ''_''"
    using validSuffix_no_underscore [OF s] by auto
  have r: "rev (p @ ''_'' @ suf) = rev suf @ CHR ''_'' # rev p" by simp
  have tw: "takeWhile (\<lambda>c. c \<noteq> CHR ''_'') (rev (p @ ''_'' @ suf)) = rev suf"
    unfolding r by (subst takeWhile_append2) (use nu in auto)
  have dw: "dropWhile (\<lambda>c. c \<noteq> CHR ''_'') (rev (p @ ''_'' @ suf)) = CHR ''_'' # rev p"
    unfolding r by (subst dropWhile_append2) (use nu in auto)
  have "typeid_Parse (p @ ''_'' @ suf) = Inr \<lparr>tid_prefix = p, tid_suffix = suf\<rparr>"
    unfolding typeid_Parse_def Let_def tw dw using p s by simp
  with p show ?thesis by (simp add: typeid_String_def)
qed

lemma validPrefix_kinds: "validPrefix (prefixOf k)" "prefixOf k \<noteq> []"
  by (cases k; simp add: validPrefix_def)+

lemma newFor_New: "newFor k = New (prefixOf k)"
  by (cases k)
     (simp_all add: NewRoleID_def NewPermissionID_def NewAssignmentID_def NewPolicyID_def
        NewRelationID_def NewCheckLogID_def NewResourceTypeID_def NewConditionID_def)

lemma parserFor_ParseWithPrefix: "parserFor k s = ParseWithPrefix s (prefixOf k)"
  by (cases k)
     (simp_all add: ParseRoleID_def ParsePermissionID_def ParseAssignmentID_def
        ParsePolicyID_def ParseRelationID_def ParseCheckLogID_def ParseResourceTypeID_def
        ParseConditionID_def)

lemma Parse_String_generated:
  assumes s: "validSuffix fresh"
  shows "Parse (String \<lparr>inner = \<lparr>tid_prefix = prefixOf k, tid_suffix = fresh\<rparr>, valid = True\<rparr>)
           = Inr \<lparr>inner = \<lparr>tid_prefix = prefixOf k, tid_suffix = fresh\<rparr>, valid = True\<rparr>"
proof -
  have ne: "typeid_String \<lparr>tid_prefix = prefixOf k, tid_suffix = fresh\<rparr> \<noteq> []"
    using validPrefix_kinds(2) [of k] by (simp add: typeid_String_def)
  show ?thesis
    using ne typeid_Parse_String [OF validPrefix_kinds s, of k]
    by (simp add: Parse_def String_def)
qed

lemma typedPrefix_valid: "validPrefix (typedPrefixOf k)" "typedPrefixOf k \<noteq> []"
  by (cases k;
      simp add: validPrefix_def RolePrefix_Prefix_def PermissionPrefix_Prefix_def
        AssignmentPrefix_Prefix_def PolicyPrefix_Prefix_def RelationPrefix_Prefix_def
        CheckLogPrefix_Prefix_def ResourceTypePrefix_Prefix_def ConditionPrefix_Prefix_def)+

lemma typedNewFor_New: "typedNewFor k fresh = must (typeid_New (typedPrefixOf k) fresh)"
  by (cases k)
     (simp_all add: NewRoleID_typed_def NewPermissionID_typed_def NewAssignmentID_typed_def
        NewPolicyID_typed_def NewRelationID_typed_def NewCheckLogID_typed_def
        NewResourceTypeID_typed_def NewConditionID_typed_def)

lemma typedParserFor_ParseAs: "typedParserFor k s = typeid_ParseAs (typedPrefixOf k) s"
  by (cases k)
     (simp_all add: ParseRoleID_typed_def ParsePermissionID_typed_def
        ParseAssignmentID_typed_def ParsePolicyID_typed_def ParseRelationID_typed_def
        ParseCheckLogID_typed_def ParseResourceTypeID_typed_def ParseConditionID_typed_def)

text \<open>
  C9. For every entity kind and every well-formed fresh suffix, the constructor of the kind
  yields an identifier \<open>x\<close>; the parser of that kind, applied to the textual form of \<open>x\<close>,
  returns \<open>x\<close> itself; and the parser of every kind with a different prefix returns an
  error on that text. This holds in both layers of package \<open>id\<close>: the one with a single
  \<open>ID\<close> type checked by \<open>ParseWithPrefix\<close>, and the one with an identifier type per prefix.
\<close>

theorem C9_parse_roundtrip_cross_type:
  assumes s: "validSuffix fresh"
  shows "(\<exists>x. newFor k fresh = Inr x
           \<and> parserFor k (String x) = Inr x
           \<and> Prefix x = prefixOf k
           \<and> (\<forall>k'. prefixOf k' \<noteq> prefixOf k \<longrightarrow> (\<exists>err. parserFor k' (String x) = Inl err)))
       \<and> (\<exists>t. typedNewFor k fresh = Inr t
           \<and> typedParserFor k (typeid_String t) = Inr t
           \<and> tid_prefix t = typedPrefixOf k
           \<and> (\<forall>k'. typedPrefixOf k' \<noteq> typedPrefixOf k \<longrightarrow>
                 (\<exists>err. typedParserFor k' (typeid_String t) = Inl err)))"
proof
  let ?x = "\<lparr>inner = \<lparr>tid_prefix = prefixOf k, tid_suffix = fresh\<rparr>, valid = True\<rparr>"
  have gen: "newFor k fresh = Inr ?x"
    using validPrefix_kinds(1) [of k] by (simp add: newFor_New New_def typeid_Generate_def)
  have pre: "Prefix ?x = prefixOf k" by (simp add: Prefix_def)
  have own: "parserFor k (String ?x) = Inr ?x"
    using Parse_String_generated [OF s, of k] pre
    by (simp add: parserFor_ParseWithPrefix ParseWithPrefix_def)
  have other: "\<exists>err. parserFor k' (String ?x) = Inl err" if "prefixOf k' \<noteq> prefixOf k" for k'
    using Parse_String_generated [OF s, of k] pre that
    by (simp add: parserFor_ParseWithPrefix ParseWithPrefix_def)
  from gen own pre other
  show "\<exists>x. newFor k fresh = Inr x
           \<and> parserFor k (String x) = Inr x
           \<and> Prefix x = prefixOf k
           \<and> (\<forall>k'. prefixOf k' \<noteq> prefixOf k \<longrightarrow> (\<exists>err. parserFor k' (String x) = Inl err))"
    by blast
next
  let ?t = "\<lparr>tid_prefix = typedPrefixOf k, tid_suffix = fresh\<rparr>"
  have gen: "typedNewFor k fresh = Inr ?t"
    using typedPrefix_valid(1) [of k]
    by (simp add: typedNewFor_New must_def typeid_New_def typeid_Generate_def)
  have rt: "typeid_Parse (typeid_String ?t) = Inr ?t"
    using typeid_Parse_String [OF typedPrefix_valid s] .
  have own: "typedParserFor k (typeid_String ?t) = Inr ?t"
    by (simp add: typedParserFor_ParseAs typeid_ParseAs_def rt)
  have other: "\<exists>err. typedParserFor k' (typeid_String ?t) = Inl err"
    if "typedPrefixOf k' \<noteq> typedPrefixOf k" for k'
    using that by (simp add: typedParserFor_ParseAs typeid_ParseAs_def rt)
  from gen own other
  show "\<exists>t. typedNewFor k fresh = Inr t
           \<and> typedParserFor k (typeid_String t) = Inr t
           \<and> tid_prefix t = typedPrefixOf k
           \<and> (\<forall>k'. typedPrefixOf k' \<noteq> typedPrefixOf k \<longrightarrow>
                 (\<exists>err. typedParserFor k' (typeid_String t) = Inl err))"
    by force
qed

lemma c9_valid: "validSuffix c9_suffix"
  by (simp add: validSuffix_def c9_suffix_def)

theorem C9_parse_roundtrip_cross_type_witness:
  "NewRoleID c9_suffix = Inr c9_role
   \<and> String c9_role = ''role_01h2xcejqtf2nbrexx3vqjhp41''
   \<and> ParseRoleID ''role_01h2xcejqtf2nbrexx3vqjhp41'' = Inr c9_role
   \<and> (\<exists>err. ParsePermissionID ''role_01h2xcejqtf2nbrexx3vqjhp41'' = Inl err)
   \<and> (\<exists>err. ParsePolicyID ''role_01h2xcejqtf2nbrexx3vqjhp41'' = Inl err)
   \<and> ParseRoleID_typed ''wrol_01h2xcejqtf2nbrexx3vqjhp41''
       = Inr \<lparr>tid_prefix = ''wrol'', tid_suffix = c9_suffix\<rparr>
   \<and> (\<exists>err. ParsePolicyID_typed ''wrol_01h2xcejqtf2nbrexx3vqjhp41'' = Inl err)"
proof -
  have gen: "NewRoleID c9_suffix = Inr c9_role"
    by (simp add: NewRoleID_def New_def typeid_Generate_def validPrefix_def c9_role_def)
  have str: "String c9_role = ''role_01h2xcejqtf2nbrexx3vqjhp41''"
    by (simp add: String_def typeid_String_def c9_role_def c9_suffix_def)
  note inst = C9_parse_roundtrip_cross_type [OF c9_valid, of KRole]
  from inst gen
  have own: "parserFor KRole (String c9_role) = Inr c9_role"
    and other: "\<forall>k'. prefixOf k' \<noteq> prefixOf KRole \<longrightarrow>
                  (\<exists>err. parserFor k' (String c9_role) = Inl err)"
    by auto
  from own have a: "ParseRoleID ''role_01h2xcejqtf2nbrexx3vqjhp41'' = Inr c9_role"
    by (simp add: str)
  from other [rule_format, of KPermission]
  have b: "\<exists>err. ParsePermissionID ''role_01h2xcejqtf2nbrexx3vqjhp41'' = Inl err"
    by (simp add: str)
  from other [rule_format, of KPolicy]
  have c: "\<exists>err. ParsePolicyID ''role_01h2xcejqtf2nbrexx3vqjhp41'' = Inl err"
    by (simp add: str)
  have tgen: "typedNewFor KRole c9_suffix = Inr \<lparr>tid_prefix = ''wrol'', tid_suffix = c9_suffix\<rparr>"
    by (simp add: NewRoleID_typed_def must_def typeid_New_def typeid_Generate_def
          validPrefix_def RolePrefix_Prefix_def)
  have tstr: "typeid_String \<lparr>tid_prefix = ''wrol'', tid_suffix = c9_suffix\<rparr>
                = ''wrol_01h2xcejqtf2nbrexx3vqjhp41''"
    by (simp add: typeid_String_def c9_suffix_def)
  from inst tgen
  have town: "typedParserFor KRole (typeid_String \<lparr>tid_prefix = ''wrol'', tid_suffix = c9_suffix\<rparr>)
                = Inr \<lparr>tid_prefix = ''wrol'', tid_suffix = c9_suffix\<rparr>"
    and tother: "\<forall>k'. typedPrefixOf k' \<noteq> typedPrefixOf KRole \<longrightarrow>
        (\<exists>err. typedParserFor k' (typeid_String \<lparr>tid_prefix = ''wrol'', tid_suffix = c9_suffix\<rparr>)
                 = Inl err)"
    by auto
  from town have d: "ParseRoleID_typed ''wrol_01h2xcejqtf2nbrexx3vqjhp41''
       = Inr \<lparr>tid_prefix = ''wrol'', tid_suffix = c9_suffix\<rparr>"
    by (simp add: tstr)
  from tother [rule_format, of KPolicy]
  have e: "\<exists>err. ParsePolicyID_typed ''wrol_01h2xcejqtf2nbrexx3vqjhp41'' = Inl err"
    by (simp add: tstr RolePrefix_Prefix_def PolicyPrefix_Prefix_def)
  from gen str a b c d e show ?thesis by (intro conjI)
qed

section \<open>Properties of Check\<close>

lemma Memory_Get_hit_unchanged:
  "fst (Memory_Get m now tenant req) = Some r \<Longrightarrow> snd (Memory_Get m now tenant req) = m"
  by (auto simp: Memory_Get_def Let_def split: option.splits if_splits)

lemma setEvalTimeNs_length: "length (setEvalTimeNs p t heap) = length heap"
  by (simp add: setEvalTimeNs_def)

lemma setEvalTimeNs_other: "i \<noteq> p \<Longrightarrow> setEvalTimeNs p t heap ! i = heap ! i"
  by (simp add: setEvalTimeNs_def)

lemma setEvalTimeNs_at:
  "p < length heap \<Longrightarrow> setEvalTimeNs p t heap ! p = (heap ! p)\<lparr>EvalTimeNs := t\<rparr>"
  by (simp add: setEvalTimeNs_def)

lemma Check_hit:
  assumes c: "w_cache w = Some m"
    and hit: "fst (Memory_Get m (t_get clk) (ts_tenantID (scopeFromContext ctx)) req) = Some cached"
  shows "Check e clk ctx req w
           = (Inr cached,
              w\<lparr>w_heap := setEvalTimeNs cached (t_since clk - t_start clk) (w_heap w)\<rparr>)"
proof -
  from hit have same: "snd (Memory_Get m (t_get clk) (ts_tenantID (scopeFromContext ctx)) req) = m"
    by (rule Memory_Get_hit_unchanged)
  from hit same
  have g: "Memory_Get m (t_get clk) (ts_tenantID (scopeFromContext ctx)) req = (Some cached, m)"
    by (metis prod.collapse)
  have w: "w\<lparr>w_cache := Some m\<rparr> = w" using c by simp
  show ?thesis by (simp add: Check_def probe_def c g w)
qed

text \<open>
  C10. When the engine has a cache and \<open>Get\<close> hits for the request, \<open>Check\<close> returns the
  cached pointer without error. The trace is as it was: no before-check or after-check
  hook was called, no evaluator ran (and so no store operation was made), and there was no
  \<open>Set\<close>. The cache is as it was. The heap has the same results at the same addresses,
  but for the \<open>EvalTimeNs\<close> field of the cached result, which is now the time since the start
  of the check. Result and world are the same for every engine, whatever its store,
  evaluator, walker, plugins and configuration: none of them is consulted.
\<close>

theorem C10_cache_hit_frame:
  assumes c: "w_cache w = Some m"
    and hit: "fst (Memory_Get m (t_get clk) (ts_tenantID (scopeFromContext ctx)) req) = Some cached"
  shows "fst (Check e clk ctx req w) = Inr cached
       \<and> w_trace (snd (Check e clk ctx req w)) = w_trace w
       \<and> w_cache (snd (Check e clk ctx req w)) = w_cache w
       \<and> length (w_heap (snd (Check e clk ctx req w))) = length (w_heap w)
       \<and> (\<forall>i. i \<noteq> cached \<longrightarrow> w_heap (snd (Check e clk ctx req w)) ! i = w_heap w ! i)
       \<and> (cached < length (w_heap w) \<longrightarrow>
            w_heap (snd (Check e clk ctx req w)) ! cached
              = (w_heap w ! cached)\<lparr>EvalTimeNs := t_since clk - t_start clk\<rparr>)
       \<and> (\<forall>e'. Check e' clk ctx req w = Check e clk ctx req w)"
  by (simp add: Check_hit [OF c hit] setEvalTimeNs_length setEvalTimeNs_other setEvalTimeNs_at)

theorem C10_cache_hit_frame_witness:
  "fst (Check c10_engine c10_clock c10_ctx c10_req c10_world) = Inr 0
   \<and> w_trace (snd (Check c10_engine c10_clock c10_ctx c10_req c10_world)) = []
   \<and> w_cache (snd (Check c10_engine c10_clock c10_ctx c10_req c10_world)) = Some c10_cache
   \<and> w_heap (snd (Check c10_engine c10_clock c10_ctx c10_req c10_world)) ! 0
       = zeroResult\<lparr>Allowed := True, Decision := DecisionAllow, EvalTimeNs := 40\<rparr>"
proof -
  have c: "w_cache c10_world = Some c10_cache" by (simp add: c10_world_def)
  have hit: "fst (Memory_Get c10_cache (t_get c10_clock)
                    (ts_tenantID (scopeFromContext c10_ctx)) c10_req) = Some 0"
    by (simp add: Memory_Get_def cacheKey_def c10_cache_def c10_clock_def c10_ctx_def c10_req_def
          scopeFromContext_def tenantIDFromContext_def appIDFromContext_def)
  note inst = C10_cache_hit_frame [OF c hit, of c10_engine]
  from inst have a: "fst (Check c10_engine c10_clock c10_ctx c10_req c10_world) = Inr 0"
    by blast
  from inst have b: "w_trace (snd (Check c10_engine c10_clock c10_ctx c10_req c10_world)) = []"
    by (simp add: c10_world_def)
  from inst c have d: "w_cache (snd (Check c10_engine c10_clock c10_ctx c10_req c10_world))
                         = Some c10_cache"
    by simp
  have len: "0 < length (w_heap c10_world)" by (simp add: c10_world_def)
  from inst len
  have "w_heap (snd (Check c10_engine c10_clock c10_ctx c10_req c10_world)) ! 0
          = (w_heap c10_world ! 0)\<lparr>EvalTimeNs := t_since c10_clock - t_start c10_clock\<rparr>"
    by blast
  then have h: "w_heap (snd (Check c10_engine c10_clock c10_ctx c10_req c10_world)) ! 0
       = zeroResult\<lparr>Allowed := True, Decision := DecisionAllow, EvalTimeNs := 40\<rparr>"
    by (simp add: c10_world_def c10_clock_def)
  from a b d h show ?thesis by (intro conjI)
qed

end
